theory Spec2Isabelle
  imports Main
begin

section \<open>Python values of the request bodies\<close>

text \<open>
  The handlers of \<^verbatim>\<open>api/chatroom/chatroom.py\<close> test request fields for \<^verbatim>\<open>None\<close>, for the
  empty string and for membership in \<^verbatim>\<open>[0, 1]\<close>, so a field value is a Python scalar:
  \<^verbatim>\<open>None\<close>, an integer or a string. Booleans and floats are not modelled.
  An element of the agent list is either a dict with string keys or some other value
  (\<^verbatim>\<open>isinstance(item, dict)\<close> tells them apart).
\<close>

datatype pyval = PNone | PInt int | PStr string

datatype item = Dict "string \<rightharpoonup> pyval" | NonDict pyval

text \<open>Python truthiness, as used by \<^verbatim>\<open>if not name\<close>.\<close>

fun truthy :: "pyval \<Rightarrow> bool" where
  "truthy PNone = False"
| "truthy (PInt n) = (n \<noteq> 0)"
| "truthy (PStr s) = (s \<noteq> [])"

text \<open>
  \<^verbatim>\<open>item[key]\<close>: the value, or \<open>None\<close> where Python raises (\<^verbatim>\<open>KeyError\<close> on a dict
  without the key, \<^verbatim>\<open>TypeError\<close> on a value that is not subscriptable by a string key).
\<close>

fun item_get :: "item \<Rightarrow> string \<Rightarrow> pyval option" where
  "item_get (Dict d) k = d k"
| "item_get (NonDict v) k = None"

section \<open>The stores\<close>

text \<open>
  Modelled from the spec: the model classes \<^verbatim>\<open>Apps\<close>, \<^verbatim>\<open>Chatrooms\<close>,
  \<^verbatim>\<open>ChatroomAgentRelation\<close> and \<^verbatim>\<open>ChatroomMessages\<close> of \<^verbatim>\<open>core.database.models\<close> are
  not part of the source at hand. Each store is a table, a list of rows with the
  attributes of the spec's data model; a row keeps the Python value a handler hands to
  the store. An agent table is added for the global agent lookup.
\<close>

record app_row =
  app_id :: int
  app_team_id :: int
  app_user_id :: int
  app_name :: pyval
  app_description :: pyval
  app_mode :: int
  app_status :: int

record room_row =
  room_id :: int
  room_team_id :: int
  room_user_id :: int
  room_app_id :: int
  room_max_round :: pyval
  room_smart_selection :: pyval
  room_status :: int
  room_active :: int

record rel_row =
  rel_chatroom_id :: int
  rel_agent_id :: pyval
  rel_active :: pyval

record msg_row =
  msg_id :: int
  msg_chatroom_id :: int
  msg_is_read :: int
  msg_payload :: string

record agent_row =
  agent_id :: int
  agent_user_id :: int

record db =
  apps :: "app_row list"
  chatrooms :: "room_row list"
  relations :: "rel_row list"
  messages :: "msg_row list"
  agents :: "agent_row list"

record userinfo =
  uid :: int
  team_id :: int

subsection \<open>Conditions\<close>

text \<open>
  Modelled from the spec: a condition \<^verbatim>\<open>{"column": c, "value": v}\<close> of the model classes'
  \<^verbatim>\<open>update\<close> and \<^verbatim>\<open>delete\<close> selects the rows whose column \<open>c\<close> equals \<open>v\<close>; a list
  of conditions is their conjunction.
\<close>

datatype app_cond = App_id int | App_team_id int | App_user_id int | App_mode int

datatype room_cond = Room_id int | Room_user_id int

datatype rel_cond = Rel_chatroom_id int | Rel_agent_id pyval

datatype msg_cond = Msg_chatroom_id int

fun app_holds :: "app_row \<Rightarrow> app_cond \<Rightarrow> bool" where
  "app_holds a (App_id v) = (app_id a = v)"
| "app_holds a (App_team_id v) = (app_team_id a = v)"
| "app_holds a (App_user_id v) = (app_user_id a = v)"
| "app_holds a (App_mode v) = (app_mode a = v)"

fun room_holds :: "room_row \<Rightarrow> room_cond \<Rightarrow> bool" where
  "room_holds r (Room_id v) = (room_id r = v)"
| "room_holds r (Room_user_id v) = (room_user_id r = v)"

fun rel_holds :: "rel_row \<Rightarrow> rel_cond \<Rightarrow> bool" where
  "rel_holds r (Rel_chatroom_id v) = (rel_chatroom_id r = v)"
| "rel_holds r (Rel_agent_id v) = (rel_agent_id r = v)"

fun msg_holds :: "msg_row \<Rightarrow> msg_cond \<Rightarrow> bool" where
  "msg_holds m (Msg_chatroom_id v) = (msg_chatroom_id m = v)"

subsection \<open>Generic store operations\<close>

text \<open>
  Modelled from the spec: \<^verbatim>\<open>update(conditions, data)\<close> rewrites the columns of \<open>data\<close> in
  every selected row (\<open>data\<close> is given as the row update it stands for),
  \<^verbatim>\<open>delete(conditions)\<close> removes every selected row, and \<^verbatim>\<open>insert(data)\<close> appends a row
  under a new id, one above the largest id in the table, and returns that id.
\<close>

definition next_id :: "int list \<Rightarrow> int" where
  "next_id ids = fold max ids 0 + 1"

definition Apps_insert :: "app_row \<Rightarrow> app_row list \<Rightarrow> int \<times> app_row list" where
  "Apps_insert data rows =
     (let new_id = next_id (map app_id rows) in (new_id, rows @ [data\<lparr>app_id := new_id\<rparr>]))"

definition Apps_update :: "app_cond list \<Rightarrow> (app_row \<Rightarrow> app_row) \<Rightarrow> app_row list \<Rightarrow> app_row list" where
  "Apps_update conds data rows = map (\<lambda>a. if list_all (app_holds a) conds then data a else a) rows"

definition Chatrooms_insert :: "room_row \<Rightarrow> room_row list \<Rightarrow> int \<times> room_row list" where
  "Chatrooms_insert data rows =
     (let new_id = next_id (map room_id rows) in (new_id, rows @ [data\<lparr>room_id := new_id\<rparr>]))"

definition Chatrooms_update :: "room_cond list \<Rightarrow> (room_row \<Rightarrow> room_row) \<Rightarrow> room_row list \<Rightarrow> room_row list" where
  "Chatrooms_update conds data rows = map (\<lambda>r. if list_all (room_holds r) conds then data r else r) rows"

definition Relation_update :: "rel_cond list \<Rightarrow> (rel_row \<Rightarrow> rel_row) \<Rightarrow> rel_row list \<Rightarrow> rel_row list" where
  "Relation_update conds data rows = map (\<lambda>r. if list_all (rel_holds r) conds then data r else r) rows"

definition Relation_delete :: "rel_cond list \<Rightarrow> rel_row list \<Rightarrow> rel_row list" where
  "Relation_delete conds rows = filter (\<lambda>r. \<not> list_all (rel_holds r) conds) rows"

definition Messages_update :: "msg_cond list \<Rightarrow> (msg_row \<Rightarrow> msg_row) \<Rightarrow> msg_row list \<Rightarrow> msg_row list" where
  "Messages_update conds data rows = map (\<lambda>m. if list_all (msg_holds m) conds then data m else m) rows"

subsection \<open>Queries\<close>

text \<open>
  Modelled from the spec: \<^verbatim>\<open>search_chatrooms_id(chatroom_id, uid)\<close> finds the room that exists
  (status 1, a soft-deleted room has status 3) and belongs to the caller. The model returns
  the row, or \<open>None\<close> where the source's result has a falsy \<^verbatim>\<open>status\<close>.
\<close>

definition search_chatrooms_id :: "int \<Rightarrow> int \<Rightarrow> room_row list \<Rightarrow> room_row option" where
  "search_chatrooms_id chatroom_id user_id rows =
     find (\<lambda>r. room_id r = chatroom_id \<and> room_user_id r = user_id \<and> room_status r = 1) rows"

text \<open>Modelled from the spec: the global agent lookup, not scoped to a room.\<close>

definition search_agent_id :: "int \<Rightarrow> agent_row list \<Rightarrow> agent_row option" where
  "search_agent_id aid rows = find (\<lambda>a. agent_id a = aid) rows"

text \<open>Modelled from the spec: the linked application record.\<close>

definition get_app_by_id :: "int \<Rightarrow> app_row list \<Rightarrow> app_row option" where
  "get_app_by_id aid rows = find (\<lambda>a. app_id a = aid) rows"

text \<open>Modelled from the spec: the memberships attached to a room, and the active ones.\<close>

definition get_agents_by_chatroom_id :: "int \<Rightarrow> rel_row list \<Rightarrow> rel_row list" where
  "get_agents_by_chatroom_id chatroom_id rows = filter (\<lambda>r. rel_chatroom_id r = chatroom_id) rows"

definition get_active_agents_by_chatroom_id :: "int \<Rightarrow> rel_row list \<Rightarrow> rel_row list" where
  "get_active_agents_by_chatroom_id chatroom_id rows =
     filter (\<lambda>r. rel_chatroom_id r = chatroom_id \<and> rel_active r = PInt 1) rows"

text \<open>Modelled from the spec: whether the (room, agent) membership exists.\<close>

definition search_chatroom_agent_relation_id :: "int \<Rightarrow> int \<Rightarrow> rel_row list \<Rightarrow> rel_row option" where
  "search_chatroom_agent_relation_id chatroom_id aid rows =
     find (\<lambda>r. rel_chatroom_id r = chatroom_id \<and> rel_agent_id r = PInt aid) rows"

subsection \<open>Bulk upsert of memberships\<close>

text \<open>
  Modelled from the spec: \<^verbatim>\<open>insert_agent({'agent': entries, 'chatroom_id': id})\<close> is the bulk
  insert of create and the bulk upsert of update: for each entry in turn, a membership of
  that room and agent gets the entry's \<open>active\<close> value if there is one, and a new row is
  appended otherwise. Reading an entry that lacks a key raises; the model returns \<open>None\<close>.
\<close>

definition upsert_agent :: "int \<Rightarrow> pyval \<Rightarrow> pyval \<Rightarrow> rel_row list \<Rightarrow> rel_row list" where
  "upsert_agent chatroom_id aid act rows =
     (if list_ex (\<lambda>r. rel_chatroom_id r = chatroom_id \<and> rel_agent_id r = aid) rows
      then Relation_update [Rel_chatroom_id chatroom_id, Rel_agent_id aid] (\<lambda>r. r\<lparr>rel_active := act\<rparr>) rows
      else rows @ [\<lparr>rel_chatroom_id = chatroom_id, rel_agent_id = aid, rel_active = act\<rparr>])"

fun insert_agent :: "item list \<Rightarrow> int \<Rightarrow> rel_row list \<Rightarrow> rel_row list option" where
  "insert_agent [] chatroom_id rows = Some rows"
| "insert_agent (a # as) chatroom_id rows =
     (case item_get a ''agent_id'' of
        None \<Rightarrow> None
      | Some aid \<Rightarrow>
          (case item_get a ''active'' of
             None \<Rightarrow> None
           | Some act \<Rightarrow> insert_agent as chatroom_id (upsert_agent chatroom_id aid act rows)))"

subsection \<open>Reads for the detail and history views\<close>

record agent_view =
  view_agent_id :: pyval
  view_active :: pyval
  view_user_id :: int
  view_type :: string

text \<open>
  Modelled from the spec: the membership list of a room, each row with the user that owns
  the agent.
\<close>

definition show_chatroom_agent :: "int \<Rightarrow> rel_row list \<Rightarrow> agent_row list \<Rightarrow> agent_view list" where
  "show_chatroom_agent chatroom_id rels ags =
     concat (map (\<lambda>r. map (\<lambda>a. \<lparr>view_agent_id = rel_agent_id r, view_active = rel_active r,
                                   view_user_id = agent_user_id a, view_type = ''''\<rparr>)
                        (filter (\<lambda>a. PInt (agent_id a) = rel_agent_id r) ags))
                 (get_agents_by_chatroom_id chatroom_id rels))"

text \<open>Modelled from the spec: one page of the room's messages; a pure read.\<close>

definition history_chatroom_messages :: "int \<Rightarrow> int \<Rightarrow> int \<Rightarrow> msg_row list \<Rightarrow> msg_row list" where
  "history_chatroom_messages chatroom_id page page_size rows =
     take (nat page_size) (drop (nat ((page - 1) * page_size))
       (filter (\<lambda>m. msg_chatroom_id m = chatroom_id) rows))"

section \<open>Response envelopes\<close>

text \<open>
  Modelled from the spec: \<^verbatim>\<open>response_success\<close> and \<^verbatim>\<open>response_error\<close> of
  \<^verbatim>\<open>api.utils.common\<close> build the success and the error envelope. An argument the
  handler leaves out is \<open>None\<close>. \<^verbatim>\<open>get_language_content\<close> looks a message up by its key;
  the message is represented by the key.
\<close>

datatype payload =
    No_data
  | Chatroom_id_data int
  | Msg_data string
  | Details_data "app_row option" "agent_view list" pyval pyval int
  | History_data "msg_row list"

datatype response =
    response_success payload "string option" "int option"
  | response_error string

definition get_language_content :: "string \<Rightarrow> string" where
  "get_language_content key = key"

section \<open>The handlers\<close>

text \<open>
  The validation loop shared by create and update: the first element that is not a dict,
  or that lacks one of the keys \<open>agent_id\<close> and \<open>active\<close>, ends the request with its
  error; \<open>None\<close> when the loop runs to its end.
\<close>

definition required_keys :: "string set" where
  "required_keys = {''agent_id'', ''active''}"

fun check_agent_items :: "item list \<Rightarrow> response option" where
  "check_agent_items [] = None"
| "check_agent_items (NonDict v # rest) =
     Some (response_error (get_language_content ''chatroom_agent_item_must_be_a_dictionary''))"
| "check_agent_items (Dict d # rest) =
     (let missing_keys = required_keys - dom d in
      if missing_keys \<noteq> {}
      then Some (response_error (get_language_content ''chatroom_agent_item_missing_keys''))
      else check_agent_items rest)"

record chat_request =
  name :: pyval
  description :: pyval
  max_round :: pyval
  agent :: "item list"

text \<open>
  A handler takes the store and returns its response with the store it leaves. Create and
  update return \<open>None\<close> where an exception would leave the handler.
\<close>

definition create_chatroom :: "chat_request \<Rightarrow> userinfo \<Rightarrow> db \<Rightarrow> (response \<times> db) option" where
  "create_chatroom chat_request userinfo s =
     (let mode = 5 in
      if \<not> truthy (name chat_request)
      then Some (response_error (get_language_content ''chatroom_name_is_required''), s)
      else if max_round chat_request = PNone \<or> max_round chat_request = PStr []
      then Some (response_error (get_language_content ''chatroom_max_round_is_required''), s)
      else if agent chat_request = [] \<or> length (agent chat_request) = 0
      then Some (response_error (get_language_content ''chatroom_agent_is_required''), s)
      else
        (case check_agent_items (agent chat_request) of
           Some err \<Rightarrow> Some (err, s)
         | None \<Rightarrow>
             (let (new_app_id, apps') =
                    Apps_insert \<lparr>app_id = 0, app_team_id = team_id userinfo, app_user_id = uid userinfo,
                                 app_name = name chat_request, app_description = description chat_request,
                                 app_mode = mode, app_status = 1\<rparr> (apps s);
                  (chatroom_id, chatrooms') =
                    Chatrooms_insert \<lparr>room_id = 0, room_team_id = team_id userinfo,
                                      room_user_id = uid userinfo, room_app_id = new_app_id,
                                      room_max_round = max_round chat_request,
                                      room_smart_selection = PInt 0, room_status = 1, room_active = 0\<rparr>
                                     (chatrooms s)
              in
                (case insert_agent (agent chat_request) chatroom_id (relations s) of
                   None \<Rightarrow> None
                 | Some relations' \<Rightarrow>
                     Some (response_success (Chatroom_id_data chatroom_id) None None,
                           s\<lparr>apps := apps', chatrooms := chatrooms', relations := relations'\<rparr>)))))"

definition delete_chatroom :: "int \<Rightarrow> userinfo \<Rightarrow> db \<Rightarrow> response \<times> db" where
  "delete_chatroom chatroom_id userinfo s =
     (if chatroom_id = 0
      then (response_error (get_language_content ''chatroom_id_is_required''), s)
      else
        (case search_chatrooms_id chatroom_id (uid userinfo) (chatrooms s) of
           None \<Rightarrow> (response_error (get_language_content ''chatroom_does_not_exist''), s)
         | Some find_chatroom \<Rightarrow>
             (let chatrooms' =
                    Chatrooms_update [Room_id chatroom_id, Room_user_id (uid userinfo)]
                      (\<lambda>r. r\<lparr>room_status := 3\<rparr>) (chatrooms s);
                  apps' =
                    Apps_update [App_user_id (uid userinfo), App_id (room_app_id find_chatroom)]
                      (\<lambda>a. a\<lparr>app_status := 3\<rparr>) (apps s);
                  relations' = Relation_delete [Rel_chatroom_id chatroom_id] (relations s)
              in (response_success (Msg_data (get_language_content ''chatroom_delete_success'')) None None,
                  s\<lparr>chatrooms := chatrooms', apps := apps', relations := relations'\<rparr>))))"

definition show_chatroom_details :: "int \<Rightarrow> userinfo \<Rightarrow> db \<Rightarrow> response \<times> db" where
  "show_chatroom_details chatroom_id userinfo s =
     (case search_chatrooms_id chatroom_id (uid userinfo) (chatrooms s) of
        None \<Rightarrow>
          (response_success No_data (Some (get_language_content ''chatroom_does_not_exist'')) (Some 1), s)
      | Some find_chatroom \<Rightarrow>
          (let chat_info = get_app_by_id (room_app_id find_chatroom) (apps s);
               agent_list = show_chatroom_agent chatroom_id (relations s) (agents s);
               agent_list' =
                 map (\<lambda>a. if view_user_id a = uid userinfo
                           then a\<lparr>view_type := ''my_agent''\<rparr>
                           else a\<lparr>view_type := ''more_agent''\<rparr>) agent_list
           in (response_success
                 (Details_data chat_info agent_list' (room_max_round find_chatroom)
                    (room_smart_selection find_chatroom) (room_status find_chatroom)) None None, s)))"

definition toggle_smart_selection_switch :: "int \<Rightarrow> pyval \<Rightarrow> userinfo \<Rightarrow> db \<Rightarrow> response \<times> db" where
  "toggle_smart_selection_switch chatroom_id smart_selection userinfo s =
     (if chatroom_id = 0
      then (response_error (get_language_content ''chatroom_id_is_required''), s)
      else
        (case search_chatrooms_id chatroom_id (uid userinfo) (chatrooms s) of
           None \<Rightarrow> (response_error (get_language_content ''chatroom_does_not_exist''), s)
         | Some find_chatroom \<Rightarrow>
             if smart_selection = PNone \<or> smart_selection = PStr []
             then (response_error (get_language_content ''chatroom_smart_selection_status_is_required''), s)
             else if smart_selection \<notin> set [PInt 0, PInt 1]
             then (response_error (get_language_content ''chatroom_smart_selection_status_can_only_input''), s)
             else
               (response_success No_data None None,
                s\<lparr>chatrooms := Chatrooms_update [Room_id chatroom_id]
                                   (\<lambda>r. r\<lparr>room_smart_selection := smart_selection\<rparr>) (chatrooms s)\<rparr>)))"

text \<open>
  The reconciliation of update computes the ids to delete as a set and walks it as a list;
  the model walks the distinct ids in the order of the existing rows (each delete removes
  the rows of one id, so the order does not matter).
\<close>

definition update_chatroom :: "int \<Rightarrow> chat_request \<Rightarrow> userinfo \<Rightarrow> db \<Rightarrow> (response \<times> db) option" where
  "update_chatroom chatroom_id chat_request userinfo s =
     (let new_agents = agent chat_request in
      case search_chatrooms_id chatroom_id (uid userinfo) (chatrooms s) of
        None \<Rightarrow> Some (response_error (get_language_content ''chatroom_does_not_exist''), s)
      | Some find_chatroom \<Rightarrow>
          if \<not> truthy (name chat_request)
          then Some (response_error (get_language_content ''chatroom_name_is_required''), s)
          else if max_round chat_request = PNone \<or> max_round chat_request = PStr []
          then Some (response_error (get_language_content ''chatroom_max_round_is_required''), s)
          else if new_agents = [] \<or> length new_agents = 0
          then Some (response_error (get_language_content ''chatroom_agent_is_required''), s)
          else
            (case check_agent_items new_agents of
               Some err \<Rightarrow> Some (err, s)
             | None \<Rightarrow>
                 (let apps' =
                        Apps_update [App_id (room_app_id find_chatroom), App_team_id (team_id userinfo),
                                     App_user_id (uid userinfo), App_mode 5]
                          (\<lambda>a. a\<lparr>app_name := name chat_request,
                                   app_description := description chat_request\<rparr>) (apps s);
                      chatrooms' =
                        Chatrooms_update [Room_id chatroom_id]
                          (\<lambda>r. r\<lparr>room_max_round := max_round chat_request\<rparr>) (chatrooms s);
                      existing_agents = get_agents_by_chatroom_id chatroom_id (relations s);
                      existing_agent_ids = set (map rel_agent_id existing_agents)
                  in
                    (case those (map (\<lambda>a. item_get a ''agent_id'') new_agents) of
                       None \<Rightarrow> None
                     | Some ids \<Rightarrow>
                         (let new_agent_ids = set ids;
                              agents_to_delete =
                                remdups (filter (\<lambda>i. i \<notin> new_agent_ids) (map rel_agent_id existing_agents));
                              agents_to_add =
                                filter (\<lambda>a. case item_get a ''agent_id'' of
                                              None \<Rightarrow> False | Some i \<Rightarrow> i \<notin> existing_agent_ids) new_agents;
                              agents_to_update =
                                filter (\<lambda>a. case item_get a ''agent_id'' of
                                              None \<Rightarrow> False | Some i \<Rightarrow> i \<in> existing_agent_ids) new_agents;
                              rels1 =
                                (if agents_to_delete \<noteq> []
                                 then fold (\<lambda>aid rows.
                                        Relation_delete [Rel_agent_id aid, Rel_chatroom_id chatroom_id] rows)
                                        agents_to_delete (relations s)
                                 else relations s)
                          in
                            (case (if agents_to_add \<noteq> []
                                   then insert_agent agents_to_add chatroom_id rels1 else Some rels1) of
                               None \<Rightarrow> None
                             | Some rels2 \<Rightarrow>
                                 (case (if agents_to_update \<noteq> []
                                        then insert_agent agents_to_update chatroom_id rels2 else Some rels2) of
                                    None \<Rightarrow> None
                                  | Some rels3 \<Rightarrow>
                                      Some (response_success (Chatroom_id_data chatroom_id) None None,
                                            s\<lparr>apps := apps', chatrooms := chatrooms',
                                              relations := rels3\<rparr>))))))))"

definition toggle_auto_answer_switch :: "int \<Rightarrow> int \<Rightarrow> pyval \<Rightarrow> userinfo \<Rightarrow> db \<Rightarrow> response \<times> db" where
  "toggle_auto_answer_switch chatroom_id aid active userinfo s =
     (if chatroom_id = 0
      then (response_error (get_language_content ''chatroom_id_is_required''), s)
      else
        (case search_chatrooms_id chatroom_id (uid userinfo) (chatrooms s) of
           None \<Rightarrow> (response_error (get_language_content ''chatroom_does_not_exist''), s)
         | Some find_chatroom \<Rightarrow>
             if aid = 0
             then (response_error (get_language_content ''chatroom_agent_id_is_required''), s)
             else
               (case search_agent_id aid (agents s) of
                  None \<Rightarrow> (response_error (get_language_content ''agent_does_not_exist''), s)
                | Some find_agent \<Rightarrow>
                    if active = PNone \<or> active = PStr []
                    then (response_error (get_language_content ''chatroom_agent_active_is_required''), s)
                    else if active \<notin> set [PInt 0, PInt 1]
                    then (response_error (get_language_content ''chatroom_agent_active_can_only_input''), s)
                    else
                      (case search_chatroom_agent_relation_id chatroom_id aid (relations s) of
                         None \<Rightarrow>
                           (response_error (get_language_content ''chatroom_agent_relation_does_not_exist''), s)
                       | Some find_chatroom_agent \<Rightarrow>
                           if active = PInt 0 \<and>
                              length (get_active_agents_by_chatroom_id chatroom_id (relations s)) \<le> 1
                           then (response_error (get_language_content ''chatroom_agent_number_less_than_one''), s)
                           else
                             (response_success No_data None None,
                              s\<lparr>relations :=
                                  Relation_update [Rel_chatroom_id chatroom_id, Rel_agent_id (PInt aid)]
                                    (\<lambda>r. r\<lparr>rel_active := active\<rparr>) (relations s)\<rparr>)))))"

text \<open>
  The handler of \<^verbatim>\<open>GET /{chatroom_id}/chatroom_message\<close>; the source names it
  \<^verbatim>\<open>show_chatroom_details\<close> a second time.
\<close>

definition show_chatroom_details_chatroom_message ::
  "int \<Rightarrow> int \<Rightarrow> int \<Rightarrow> userinfo \<Rightarrow> db \<Rightarrow> response \<times> db" where
  "show_chatroom_details_chatroom_message chatroom_id page page_size userinfo s =
     (case search_chatrooms_id chatroom_id (uid userinfo) (chatrooms s) of
        None \<Rightarrow> (response_error (get_language_content ''chatroom_does_not_exist''), s)
      | Some find_chatroom \<Rightarrow>
          (let chatroom_history_msg = history_chatroom_messages chatroom_id page page_size (messages s);
               chatrooms' = Chatrooms_update [Room_id chatroom_id] (\<lambda>r. r\<lparr>room_active := 0\<rparr>) (chatrooms s);
               messages' = Messages_update [Msg_chatroom_id chatroom_id] (\<lambda>m. m\<lparr>msg_is_read := 1\<rparr>) (messages s)
           in (response_success (History_data chatroom_history_msg) None None,
               s\<lparr>chatrooms := chatrooms', messages := messages'\<rparr>)))"

section \<open>Vocabulary for the membership reconciliation\<close>

text \<open>
  The (agent id, active) pairs a well-formed agent list stands for, the agent ids of a
  list, and the active value the last entry of an agent gives; the agent ids attached to a
  room; the upserts of a list of pairs; and the three steps of the reconciliation of
  update as one function on the membership table.
\<close>

definition agent_entry :: "item \<Rightarrow> (pyval \<times> pyval) option" where
  "agent_entry a =
     (case item_get a ''agent_id'' of
        None \<Rightarrow> None
      | Some aid \<Rightarrow> (case item_get a ''active'' of None \<Rightarrow> None | Some act \<Rightarrow> Some (aid, act)))"

definition agent_entries :: "item list \<Rightarrow> (pyval \<times> pyval) list" where
  "agent_entries items = List.map_filter agent_entry items"

definition agent_ids_of :: "item list \<Rightarrow> pyval list" where
  "agent_ids_of items = List.map_filter (\<lambda>a. item_get a ''agent_id'') items"

definition last_active :: "item list \<Rightarrow> pyval \<Rightarrow> pyval option" where
  "last_active items aid = map_of (rev (agent_entries items)) aid"

fun malformed_entry :: "item \<Rightarrow> bool" where
  "malformed_entry (NonDict v) = True"
| "malformed_entry (Dict d) = (d ''agent_id'' = None \<or> d ''active'' = None)"

definition upserts :: "int \<Rightarrow> (pyval \<times> pyval) list \<Rightarrow> rel_row list \<Rightarrow> rel_row list" where
  "upserts chatroom_id es rows = fold (\<lambda>e. upsert_agent chatroom_id (fst e) (snd e)) es rows"

definition refresh :: "int \<Rightarrow> (pyval \<times> pyval) list \<Rightarrow> rel_row \<Rightarrow> rel_row" where
  "refresh chatroom_id es r =
     (if rel_chatroom_id r = chatroom_id
      then (case map_of (rev es) (rel_agent_id r) of None \<Rightarrow> r | Some v \<Rightarrow> r\<lparr>rel_active := v\<rparr>)
      else r)"

definition room_agent_ids :: "int \<Rightarrow> rel_row list \<Rightarrow> pyval set" where
  "room_agent_ids chatroom_id rows = set (map rel_agent_id (get_agents_by_chatroom_id chatroom_id rows))"

definition reconcile :: "int \<Rightarrow> (pyval \<times> pyval) list \<Rightarrow> rel_row list \<Rightarrow> rel_row list" where
  "reconcile chatroom_id es rows =
     upserts chatroom_id (filter (\<lambda>e. fst e \<in> room_agent_ids chatroom_id rows) es)
       (upserts chatroom_id (filter (\<lambda>e. fst e \<notin> room_agent_ids chatroom_id rows) es)
          (filter (\<lambda>r. \<not> (rel_chatroom_id r = chatroom_id \<and> rel_agent_id r \<notin> fst ` set es)) rows))"

section \<open>Error classes\<close>

text \<open>
  The spec sorts the error envelopes into validation errors (a missing or empty required
  field, a malformed agent entry, a value outside its enumeration), not-found errors and
  the invariant violation of the last active agent. The validation errors are those of
  the keys below.
\<close>

definition validation_keys :: "string list" where
  "validation_keys =
     [''chatroom_name_is_required'', ''chatroom_max_round_is_required'',
      ''chatroom_agent_is_required'', ''chatroom_agent_item_must_be_a_dictionary'',
      ''chatroom_agent_item_missing_keys'', ''chatroom_id_is_required'',
      ''chatroom_smart_selection_status_is_required'',
      ''chatroom_smart_selection_status_can_only_input'', ''chatroom_agent_id_is_required'',
      ''chatroom_agent_active_is_required'', ''chatroom_agent_active_can_only_input'']"

fun validation_error :: "response \<Rightarrow> bool" where
  "validation_error (response_error detail) = (detail \<in> set (map get_language_content validation_keys))"
| "validation_error (response_success data detail code) = False"

section \<open>An example store\<close>

text \<open>
  One caller, one room of that caller with its application, two active memberships, two
  unread messages and three agents.
\<close>

definition example_user :: userinfo where
  "example_user = \<lparr>uid = 1, team_id = 1\<rparr>"

definition example_room :: room_row where
  "example_room =
     \<lparr>room_id = 1, room_team_id = 1, room_user_id = 1, room_app_id = 1, room_max_round = PInt 10,
      room_smart_selection = PInt 0, room_status = 1, room_active = 1\<rparr>"

definition example_db :: db where
  "example_db =
     \<lparr>apps = [\<lparr>app_id = 1, app_team_id = 1, app_user_id = 1, app_name = PStr ''room'',
                app_description = PStr ''demo'', app_mode = 5, app_status = 1\<rparr>],
      chatrooms = [example_room],
      relations = [\<lparr>rel_chatroom_id = 1, rel_agent_id = PInt 1, rel_active = PInt 1\<rparr>,
                   \<lparr>rel_chatroom_id = 1, rel_agent_id = PInt 2, rel_active = PInt 1\<rparr>],
      messages = [\<lparr>msg_id = 1, msg_chatroom_id = 1, msg_is_read = 0, msg_payload = ''hello''\<rparr>,
                  \<lparr>msg_id = 2, msg_chatroom_id = 1, msg_is_read = 0, msg_payload = ''again''\<rparr>],
      agents = [\<lparr>agent_id = 1, agent_user_id = 1\<rparr>, \<lparr>agent_id = 2, agent_user_id = 2\<rparr>,
                \<lparr>agent_id = 3, agent_user_id = 1\<rparr>]\<rparr>"

text \<open>The same store with the second membership inactive.\<close>

definition example_db_one_active :: db where
  "example_db_one_active =
     example_db\<lparr>relations := [\<lparr>rel_chatroom_id = 1, rel_agent_id = PInt 1, rel_active = PInt 1\<rparr>,
                                \<lparr>rel_chatroom_id = 1, rel_agent_id = PInt 2, rel_active = PInt 0\<rparr>]\<rparr>"

text \<open>The update of the spec's example: agents 2 and 3 replace agents 1 and 2.\<close>

definition example_request :: chat_request where
  "example_request =
     \<lparr>name = PStr ''room'', description = PStr ''demo'', max_round = PInt 10,
      agent = [Dict [''agent_id'' \<mapsto> PInt 2, ''active'' \<mapsto> PInt 1],
               Dict [''agent_id'' \<mapsto> PInt 3, ''active'' \<mapsto> PInt 1]]\<rparr>"

text \<open>
  Requests on that store: one whose active values are outside 0 and 1, one with an empty
  agent list, one whose second entry lacks the \<open>active\<close> key, and one that lists a
  single agent as inactive.
\<close>

definition example_out_of_range_request :: chat_request where
  "example_out_of_range_request =
     \<lparr>name = PStr ''room'', description = PStr ''demo'', max_round = PInt 10,
      agent = [Dict [''agent_id'' \<mapsto> PInt 1, ''active'' \<mapsto> PInt 5],
               Dict [''agent_id'' \<mapsto> PInt 2, ''active'' \<mapsto> PStr ''yes'']]\<rparr>"

definition example_empty_request :: chat_request where
  "example_empty_request =
     \<lparr>name = PStr ''room'', description = PStr ''demo'', max_round = PInt 10, agent = []\<rparr>"

definition example_missing_key_request :: chat_request where
  "example_missing_key_request =
     \<lparr>name = PStr ''room'', description = PStr ''demo'', max_round = PInt 10,
      agent = [Dict [''agent_id'' \<mapsto> PInt 2, ''active'' \<mapsto> PInt 1], Dict [''agent_id'' \<mapsto> PInt 3]]\<rparr>"

definition example_deactivating_request :: chat_request where
  "example_deactivating_request =
     \<lparr>name = PStr ''room'', description = PStr ''demo'', max_round = PInt 10,
      agent = [Dict [''agent_id'' \<mapsto> PInt 1, ''active'' \<mapsto> PInt 0]]\<rparr>"

section \<open>Basic facts about the store operations\<close>

lemma search_chatrooms_id_Some:
  "search_chatrooms_id cid u rows = Some r \<Longrightarrow>
     r \<in> set rows \<and> room_id r = cid \<and> room_user_id r = u \<and> room_status r = 1"
  unfolding search_chatrooms_id_def by (auto simp: find_Some_iff)

lemma filter_map_if:
  assumes "\<And>x. P (g x) = P x" and "\<And>x. x \<in> set xs \<Longrightarrow> P x \<Longrightarrow> Q x"
  shows "filter P (map (\<lambda>x. if Q x then g x else x) xs) = map g (filter P xs)"
  using assms(2) by (induction xs) (auto simp: assms(1))

lemma example_room_found:
  "search_chatrooms_id 1 (uid example_user) (chatrooms example_db) = Some example_room"
  by (simp add: search_chatrooms_id_def example_db_def example_user_def example_room_def)

lemma search_chatroom_agent_relation_id_Some:
  "search_chatroom_agent_relation_id cid aid rows = Some r \<Longrightarrow>
     r \<in> set rows \<and> rel_chatroom_id r = cid \<and> rel_agent_id r = PInt aid"
  unfolding search_chatroom_agent_relation_id_def by (auto simp: find_Some_iff)

lemma example_one_active_facts:
  "search_chatrooms_id 1 (uid example_user) (chatrooms example_db_one_active) = Some example_room"
  "search_agent_id 1 (agents example_db_one_active) = Some \<lparr>agent_id = 1, agent_user_id = 1\<rparr>"
  "search_agent_id 2 (agents example_db_one_active) = Some \<lparr>agent_id = 2, agent_user_id = 2\<rparr>"
  "search_chatroom_agent_relation_id 1 1 (relations example_db_one_active) =
     Some \<lparr>rel_chatroom_id = 1, rel_agent_id = PInt 1, rel_active = PInt 1\<rparr>"
  "search_chatroom_agent_relation_id 1 2 (relations example_db_one_active) =
     Some \<lparr>rel_chatroom_id = 1, rel_agent_id = PInt 2, rel_active = PInt 0\<rparr>"
  "length (get_active_agents_by_chatroom_id 1 (relations example_db_one_active)) = 1"
  by (simp_all add: example_db_one_active_def example_db_def example_user_def example_room_def
      search_chatrooms_id_def search_agent_id_def search_chatroom_agent_relation_id_def
      get_active_agents_by_chatroom_id_def)

lemma example_facts:
  "search_agent_id 2 (agents example_db) = Some \<lparr>agent_id = 2, agent_user_id = 2\<rparr>"
  "search_chatroom_agent_relation_id 1 2 (relations example_db) =
     Some \<lparr>rel_chatroom_id = 1, rel_agent_id = PInt 2, rel_active = PInt 1\<rparr>"
  "length (get_active_agents_by_chatroom_id 1 (relations example_db)) = 2"
  by (simp_all add: example_db_def 
      search_agent_id_def search_chatroom_agent_relation_id_def
      get_active_agents_by_chatroom_id_def)

section \<open>Facts about the bulk upsert and the reconciliation\<close>

lemma check_agent_items_None_iff:
  "check_agent_items items = None \<longleftrightarrow> (\<forall>a \<in> set items. \<not> malformed_entry a)"
  by (induction items rule: check_agent_items.induct)
     (auto simp: required_keys_def Let_def dom_def)

lemma well_formed_entry:
  "\<not> malformed_entry a \<Longrightarrow> \<exists>i v. item_get a ''agent_id'' = Some i \<and> item_get a ''active'' = Some v
      \<and> agent_entry a = Some (i, v)"
  by (cases a) (auto simp: agent_entry_def)

lemma insert_agent_upserts:
  "check_agent_items items = None \<Longrightarrow>
     insert_agent items cid rows = Some (upserts cid (agent_entries items) rows)"
proof (induction items arbitrary: rows)
  case Nil
  show ?case by (simp add: upserts_def agent_entries_def)
next
  case (Cons a items)
  from Cons.prems have wf: "\<not> malformed_entry a" and rest: "check_agent_items items = None"
    by (simp_all add: check_agent_items_None_iff)
  from well_formed_entry[OF wf] obtain i v where
    iv: "item_get a ''agent_id'' = Some i" "item_get a ''active'' = Some v" "agent_entry a = Some (i, v)"
    by blast
  show ?case
    using Cons.IH[OF rest] iv
    by (simp add: upserts_def agent_entries_def)
qed

lemma those_agent_ids:
  "check_agent_items items = None \<Longrightarrow>
     those (map (\<lambda>a. item_get a ''agent_id'') items) = Some (agent_ids_of items)"
proof (induction items)
  case Nil
  show ?case by (simp add: agent_ids_of_def)
next
  case (Cons a items)
  from Cons.prems have wf: "\<not> malformed_entry a" and rest: "check_agent_items items = None"
    by (simp_all add: check_agent_items_None_iff)
  from well_formed_entry[OF wf] obtain i where "item_get a ''agent_id'' = Some i" by blast
  then show ?case using Cons.IH[OF rest]
    by (simp add: agent_ids_of_def)
qed

lemma agent_ids_of_entries:
  "check_agent_items items = None \<Longrightarrow> agent_ids_of items = map fst (agent_entries items)"
proof (induction items)
  case Nil
  show ?case by (simp add: agent_ids_of_def agent_entries_def)
next
  case (Cons a items)
  from Cons.prems have wf: "\<not> malformed_entry a" and rest: "check_agent_items items = None"
    by (simp_all add: check_agent_items_None_iff)
  from well_formed_entry[OF wf] show ?case using Cons.IH[OF rest]
    by (auto simp add: agent_ids_of_def agent_entries_def)
qed

lemma upsert_agent_cases:
  "upsert_agent cid i v rows =
     (if \<exists>r \<in> set rows. rel_chatroom_id r = cid \<and> rel_agent_id r = i
      then map (\<lambda>r. if rel_chatroom_id r = cid \<and> rel_agent_id r = i then r\<lparr>rel_active := v\<rparr> else r) rows
      else rows @ [\<lparr>rel_chatroom_id = cid, rel_agent_id = i, rel_active = v\<rparr>])"
  by (simp add: upsert_agent_def Relation_update_def list_ex_iff)

lemma upsert_agent_other_rooms:
  "filter (\<lambda>r. rel_chatroom_id r \<noteq> cid) (upsert_agent cid i v rows) =
   filter (\<lambda>r. rel_chatroom_id r \<noteq> cid) rows"
proof -
  have "filter (\<lambda>r. rel_chatroom_id r \<noteq> cid)
          (map (\<lambda>r. if rel_chatroom_id r = cid \<and> rel_agent_id r = i then r\<lparr>rel_active := v\<rparr> else r) rows) =
        filter (\<lambda>r. rel_chatroom_id r \<noteq> cid) rows"
    by (induction rows) auto
  then show ?thesis by (simp add: upsert_agent_cases)
qed

lemma room_agent_ids_map:
  assumes "\<And>r. rel_chatroom_id (f r) = rel_chatroom_id r" and "\<And>r. rel_agent_id (f r) = rel_agent_id r"
  shows "room_agent_ids cid (map f rows) = room_agent_ids cid rows"
  by (induction rows) (simp_all add: room_agent_ids_def get_agents_by_chatroom_id_def assms)

lemma room_agent_ids_iff:
  "i \<in> room_agent_ids cid rows \<longleftrightarrow> (\<exists>r \<in> set rows. rel_chatroom_id r = cid \<and> rel_agent_id r = i)"
  by (auto simp: room_agent_ids_def get_agents_by_chatroom_id_def)

lemma upsert_agent_ids:
  "room_agent_ids cid (upsert_agent cid i v rows) = insert i (room_agent_ids cid rows)"
proof (cases "\<exists>r \<in> set rows. rel_chatroom_id r = cid \<and> rel_agent_id r = i")
  case True
  then have "i \<in> room_agent_ids cid rows" by (simp add: room_agent_ids_iff)
  moreover have "room_agent_ids cid (upsert_agent cid i v rows) = room_agent_ids cid rows"
    using True by (simp add: upsert_agent_cases room_agent_ids_map)
  ultimately show ?thesis by auto
next
  case False
  then have "upsert_agent cid i v rows = rows @ [\<lparr>rel_chatroom_id = cid, rel_agent_id = i, rel_active = v\<rparr>]"
    by (simp add: upsert_agent_cases)
  then show ?thesis
    by (simp add: room_agent_ids_def get_agents_by_chatroom_id_def)
qed

lemma upsert_agent_row:
  assumes "r \<in> set (upsert_agent cid i v rows)" and "rel_chatroom_id r = cid"
  shows "(rel_agent_id r = i \<and> rel_active r = v) \<or> (rel_agent_id r \<noteq> i \<and> r \<in> set rows)"
proof (cases "\<exists>r \<in> set rows. rel_chatroom_id r = cid \<and> rel_agent_id r = i")
  case True
  then have "upsert_agent cid i v rows =
      map (\<lambda>r. if rel_chatroom_id r = cid \<and> rel_agent_id r = i then r\<lparr>rel_active := v\<rparr> else r) rows"
    by (simp add: upsert_agent_cases)
  with assms(1) obtain r0 where r0: "r0 \<in> set rows"
    "r = (if rel_chatroom_id r0 = cid \<and> rel_agent_id r0 = i then r0\<lparr>rel_active := v\<rparr> else r0)"
    by auto
  show ?thesis
  proof (cases "rel_chatroom_id r0 = cid \<and> rel_agent_id r0 = i")
    case True
    with r0 show ?thesis by simp
  next
    case False
    with r0 assms(2) show ?thesis by simp
  qed
next
  case False
  then have "upsert_agent cid i v rows = rows @ [\<lparr>rel_chatroom_id = cid, rel_agent_id = i, rel_active = v\<rparr>]"
    by (simp add: upsert_agent_cases)
  with assms(1) have "r \<in> set rows \<or> r = \<lparr>rel_chatroom_id = cid, rel_agent_id = i, rel_active = v\<rparr>"
    by auto
  then show ?thesis
  proof
    assume "r \<in> set rows"
    with False assms(2) show ?thesis by blast
  next
    assume "r = \<lparr>rel_chatroom_id = cid, rel_agent_id = i, rel_active = v\<rparr>"
    then show ?thesis by simp
  qed
qed

lemma upserts_snoc:
  "upserts cid (es @ [(i, v)]) rows = upsert_agent cid i v (upserts cid es rows)"
  by (simp add: upserts_def)

lemma upserts_other_rooms:
  "filter (\<lambda>r. rel_chatroom_id r \<noteq> cid) (upserts cid es rows) =
   filter (\<lambda>r. rel_chatroom_id r \<noteq> cid) rows"
proof (induction es rule: rev_induct)
  case Nil
  show ?case by (simp add: upserts_def)
next
  case (snoc e es)
  then show ?case by (cases e) (simp add: upserts_snoc upsert_agent_other_rooms)
qed

lemma upserts_ids:
  "room_agent_ids cid (upserts cid es rows) = room_agent_ids cid rows \<union> fst ` set es"
proof (induction es rule: rev_induct)
  case Nil
  show ?case by (simp add: upserts_def)
next
  case (snoc e es)
  obtain i v where e: "e = (i, v)" by (cases e)
  have "room_agent_ids cid (upserts cid (es @ [(i, v)]) rows) =
          insert i (room_agent_ids cid rows \<union> fst ` set es)"
    by (simp only: upserts_snoc upsert_agent_ids snoc.IH)
  then show ?case by (simp add: e)
qed

lemma upserts_row:
  assumes "r \<in> set (upserts cid es rows)" and "rel_chatroom_id r = cid"
  shows "case map_of (rev es) (rel_agent_id r) of None \<Rightarrow> r \<in> set rows | Some v \<Rightarrow> rel_active r = v"
  using assms
proof (induction es arbitrary: r rule: rev_induct)
  case Nil
  then show ?case by (simp add: upserts_def)
next
  case (snoc e es)
  obtain i v where e: "e = (i, v)" by (cases e)
  from snoc.prems have "r \<in> set (upsert_agent cid i v (upserts cid es rows))"
    by (simp add: e upserts_snoc)
  from upsert_agent_row[OF this snoc.prems(2)]
  show ?case
  proof
    assume "rel_agent_id r = i \<and> rel_active r = v"
    then show ?thesis by (simp add: e)
  next
    assume a: "rel_agent_id r \<noteq> i \<and> r \<in> set (upserts cid es rows)"
    with snoc.IH[of r] snoc.prems(2) show ?thesis by (simp add: e)
  qed
qed

lemma refresh_snoc:
  "refresh cid (es @ [(i, v)]) r =
     (if rel_chatroom_id (refresh cid es r) = cid \<and> rel_agent_id (refresh cid es r) = i
      then (refresh cid es r)\<lparr>rel_active := v\<rparr> else refresh cid es r)"
proof (cases "rel_chatroom_id r = cid")
  case False
  then show ?thesis by (simp add: refresh_def)
next
  case room: True
  show ?thesis
  proof (cases "map_of (rev es) (rel_agent_id r)")
    case None
    then show ?thesis using room by (auto simp: refresh_def)
  next
    case (Some w)
    then show ?thesis using room by (auto simp: refresh_def)
  qed
qed

lemma upserts_present:
  assumes "fst ` set es \<subseteq> room_agent_ids cid rows"
  shows "upserts cid es rows = map (refresh cid es) rows"
  using assms
proof (induction es rule: rev_induct)
  case Nil
  show ?case by (simp add: upserts_def refresh_def map_idI)
next
  case (snoc e es)
  obtain i v where e: "e = (i, v)" by (cases e)
  from snoc.prems have sub: "fst ` set es \<subseteq> room_agent_ids cid rows" and i: "i \<in> room_agent_ids cid rows"
    by (auto simp: e)
  from i obtain r0 where r0: "r0 \<in> set rows" "rel_chatroom_id r0 = cid" "rel_agent_id r0 = i"
    by (auto simp: room_agent_ids_iff)
  have keep: "\<And>r. rel_chatroom_id (refresh cid es r) = rel_chatroom_id r \<and>
                    rel_agent_id (refresh cid es r) = rel_agent_id r"
    by (simp add: refresh_def split: option.splits)
  have ex: "\<exists>r \<in> set (map (refresh cid es) rows). rel_chatroom_id r = cid \<and> rel_agent_id r = i"
    using r0 keep by (auto intro!: bexI[where x=r0])
  have "upserts cid (es @ [e]) rows = upsert_agent cid i v (map (refresh cid es) rows)"
    by (simp add: e upserts_snoc snoc.IH[OF sub])
  also have "\<dots> = map (\<lambda>r. if rel_chatroom_id r = cid \<and> rel_agent_id r = i then r\<lparr>rel_active := v\<rparr> else r)
                      (map (refresh cid es) rows)"
    using ex by (simp only: upsert_agent_cases if_True)
  also have "\<dots> = map (refresh cid (es @ [e])) rows"
    by (simp add: e refresh_snoc)
  finally show ?case .
qed

lemma map_of_filter_fst:
  "map_of (filter (\<lambda>e. Q (fst e)) xs) k = (if Q k then map_of xs k else None)"
  by (induction xs) auto

lemma room_agent_ids_filter:
  "room_agent_ids cid (filter (\<lambda>r. \<not> (rel_chatroom_id r = cid \<and> rel_agent_id r \<notin> N)) rows) =
   room_agent_ids cid rows \<inter> N"
  by (auto simp: room_agent_ids_iff)

lemma reconcile_ids:
  "room_agent_ids cid (reconcile cid es rows) = fst ` set es"
proof -
  let ?E = "room_agent_ids cid rows"
  have "room_agent_ids cid (reconcile cid es rows) =
          (?E \<inter> fst ` set es) \<union> fst ` set (filter (\<lambda>e. fst e \<notin> ?E) es)
            \<union> fst ` set (filter (\<lambda>e. fst e \<in> ?E) es)"
    by (simp only: reconcile_def upserts_ids room_agent_ids_filter)
  also have "\<dots> = fst ` set es" by auto
  finally show ?thesis .
qed

lemma reconcile_other_rooms:
  "filter (\<lambda>r. rel_chatroom_id r \<noteq> cid) (reconcile cid es rows) =
   filter (\<lambda>r. rel_chatroom_id r \<noteq> cid) rows"
proof -
  have "filter (\<lambda>r. rel_chatroom_id r \<noteq> cid)
          (filter (\<lambda>r. \<not> (rel_chatroom_id r = cid \<and> rel_agent_id r \<notin> fst ` set es)) rows) =
        filter (\<lambda>r. rel_chatroom_id r \<noteq> cid) rows"
    by (induction rows) auto
  then show ?thesis by (simp only: reconcile_def upserts_other_rooms)
qed

lemma reconcile_row:
  assumes "r \<in> set (reconcile cid es rows)" and "rel_chatroom_id r = cid"
  shows "map_of (rev es) (rel_agent_id r) = Some (rel_active r)"
proof -
  let ?E = "room_agent_ids cid rows"
  let ?i = "rel_agent_id r"
  let ?rows1 = "filter (\<lambda>r. \<not> (rel_chatroom_id r = cid \<and> rel_agent_id r \<notin> fst ` set es)) rows"
  let ?rows2 = "upserts cid (filter (\<lambda>e. fst e \<notin> ?E) es) ?rows1"
  have upd: "map_of (rev (filter (\<lambda>e. fst e \<in> ?E) es)) ?i = (if ?i \<in> ?E then map_of (rev es) ?i else None)"
    unfolding rev_filter by (rule map_of_filter_fst[of "\<lambda>i. i \<in> ?E"])
  have add: "map_of (rev (filter (\<lambda>e. fst e \<notin> ?E) es)) ?i = (if ?i \<notin> ?E then map_of (rev es) ?i else None)"
    unfolding rev_filter by (rule map_of_filter_fst[of "\<lambda>i. i \<notin> ?E"])
  from assms(1) have r3: "r \<in> set (upserts cid (filter (\<lambda>e. fst e \<in> ?E) es) ?rows2)"
    by (simp only: reconcile_def)
  have "?i \<in> room_agent_ids cid (reconcile cid es rows)"
    unfolding room_agent_ids_iff using assms by blast
  then have N: "?i \<in> fst ` set es"
    by (simp only: reconcile_ids)
  then have dom: "map_of (rev es) ?i \<noteq> None"
    by (simp add: map_of_eq_None_iff)
  show ?thesis
  proof (cases "?i \<in> ?E")
    case True
    with upserts_row[OF r3 assms(2)] upd dom show ?thesis by auto
  next
    case False
    with upserts_row[OF r3 assms(2)] upd have r2: "r \<in> set ?rows2" by simp
    from upserts_row[OF r2 assms(2)] add False dom show ?thesis by auto
  qed
qed

lemma reconcile_idem:
  "reconcile cid es (reconcile cid es rows) = reconcile cid es rows"
proof -
  let ?R = "reconcile cid es rows"
  have ids: "room_agent_ids cid ?R = fst ` set es" by (rule reconcile_ids)
  have mem: "rel_agent_id r \<in> fst ` set es" if "r \<in> set ?R" and "rel_chatroom_id r = cid" for r
  proof -
    from that have "rel_agent_id r \<in> room_agent_ids cid ?R"
      unfolding room_agent_ids_iff by blast
    then show ?thesis by (simp only: ids)
  qed
  have keep: "filter (\<lambda>r. \<not> (rel_chatroom_id r = cid \<and> rel_agent_id r \<notin> fst ` set es)) ?R = ?R"
    unfolding filter_id_conv using mem by blast
  have none: "filter (\<lambda>e. fst e \<notin> fst ` set es) es = []"
    by (simp add: filter_empty_conv)
  have all: "filter (\<lambda>e. fst e \<in> fst ` set es) es = es"
    by (simp add: filter_id_conv)
  have "reconcile cid es ?R = upserts cid es ?R"
    unfolding reconcile_def[of cid es ?R] ids keep none all by (simp add: upserts_def)
  also have "\<dots> = map (refresh cid es) ?R"
    by (rule upserts_present) (simp add: ids)
  also have "\<dots> = ?R"
  proof (rule map_idI)
    fix r assume r: "r \<in> set ?R"
    show "refresh cid es r = r"
    proof (cases "rel_chatroom_id r = cid")
      case True
      from reconcile_row[OF r True] True show ?thesis by (simp add: refresh_def)
    next
      case False
      then show ?thesis by (simp add: refresh_def)
    qed
  qed
  finally show ?thesis .
qed

lemma fold_Relation_delete:
  "fold (\<lambda>aid rows. Relation_delete [Rel_agent_id aid, Rel_chatroom_id cid] rows) dels rows =
   filter (\<lambda>r. \<not> (rel_chatroom_id r = cid \<and> rel_agent_id r \<in> set dels)) rows"
proof (induction dels arbitrary: rows)
  case Nil
  show ?case by simp
next
  case (Cons d dels)
  have "fold (\<lambda>aid rows. Relation_delete [Rel_agent_id aid, Rel_chatroom_id cid] rows) (d # dels) rows =
        filter (\<lambda>r. \<not> (rel_chatroom_id r = cid \<and> rel_agent_id r \<in> set dels))
          (Relation_delete [Rel_agent_id d, Rel_chatroom_id cid] rows)"
    by (simp only: fold_simps comp_def Cons.IH)
  also have "\<dots> = filter (\<lambda>r. \<not> (rel_chatroom_id r = cid \<and> rel_agent_id r \<in> set (d # dels))) rows"
    unfolding Relation_delete_def filter_filter by (rule filter_cong) auto
  finally show ?case .
qed

lemma delete_stale_agents:
  "(if remdups (filter (\<lambda>i. i \<notin> N) (map rel_agent_id (get_agents_by_chatroom_id cid rows))) \<noteq> []
    then fold (\<lambda>aid rows. Relation_delete [Rel_agent_id aid, Rel_chatroom_id cid] rows)
           (remdups (filter (\<lambda>i. i \<notin> N) (map rel_agent_id (get_agents_by_chatroom_id cid rows)))) rows
    else rows) =
   filter (\<lambda>r. \<not> (rel_chatroom_id r = cid \<and> rel_agent_id r \<notin> N)) rows"
proof -
  let ?dels = "remdups (filter (\<lambda>i. i \<notin> N) (map rel_agent_id (get_agents_by_chatroom_id cid rows)))"
  have "(if ?dels \<noteq> []
         then fold (\<lambda>aid rows. Relation_delete [Rel_agent_id aid, Rel_chatroom_id cid] rows) ?dels rows
         else rows) =
        fold (\<lambda>aid rows. Relation_delete [Rel_agent_id aid, Rel_chatroom_id cid] rows) ?dels rows"
    by (cases "?dels = []") simp_all
  also have "\<dots> = filter (\<lambda>r. \<not> (rel_chatroom_id r = cid \<and> rel_agent_id r \<notin> N)) rows"
    unfolding fold_Relation_delete
    by (rule filter_cong) (auto simp: get_agents_by_chatroom_id_def)
  finally show ?thesis .
qed

lemma check_agent_items_filter:
  "check_agent_items items = None \<Longrightarrow> check_agent_items (filter P items) = None"
  by (simp add: check_agent_items_None_iff)

lemma agent_entries_filter:
  "check_agent_items items = None \<Longrightarrow>
   agent_entries (filter (\<lambda>a. case item_get a ''agent_id'' of None \<Rightarrow> False | Some i \<Rightarrow> Q i) items) =
   filter (\<lambda>e. Q (fst e)) (agent_entries items)"
proof (induction items)
  case Nil
  show ?case by (simp add: agent_entries_def)
next
  case (Cons a items)
  from Cons.prems have wf: "\<not> malformed_entry a" and rest: "check_agent_items items = None"
    by (simp_all add: check_agent_items_None_iff)
  from well_formed_entry[OF wf] obtain i v where
    iv: "item_get a ''agent_id'' = Some i" "agent_entry a = Some (i, v)" by blast
  from Cons.IH[OF rest] iv show ?case
    by (simp add: agent_entries_def)
qed

lemma insert_agent_filtered:
  assumes "check_agent_items items = None"
  shows "(if filter (\<lambda>a. case item_get a ''agent_id'' of None \<Rightarrow> False | Some i \<Rightarrow> Q i) items \<noteq> []
          then insert_agent (filter (\<lambda>a. case item_get a ''agent_id'' of None \<Rightarrow> False | Some i \<Rightarrow> Q i) items) cid rows
          else Some rows) =
         Some (upserts cid (filter (\<lambda>e. Q (fst e)) (agent_entries items)) rows)"
proof -
  let ?xs = "filter (\<lambda>a. case item_get a ''agent_id'' of None \<Rightarrow> False | Some i \<Rightarrow> Q i) items"
  have "insert_agent ?xs cid rows = Some (upserts cid (filter (\<lambda>e. Q (fst e)) (agent_entries items)) rows)"
    using insert_agent_upserts[OF check_agent_items_filter[OF assms]] agent_entries_filter[OF assms]
    by simp
  moreover have "?xs = [] \<Longrightarrow> insert_agent ?xs cid rows = Some rows" by simp
  ultimately show ?thesis by (cases "?xs = []") simp_all
qed

lemma update_chatroom_accepted:
  assumes room: "search_chatrooms_id cid (uid u) (chatrooms s) = Some room"
    and name: "truthy (name req)"
    and rounds: "max_round req \<noteq> PNone" "max_round req \<noteq> PStr []"
    and nonempty: "agent req \<noteq> []"
    and valid: "check_agent_items (agent req) = None"
  shows "update_chatroom cid req u s =
     Some (response_success (Chatroom_id_data cid) None None,
           s\<lparr>apps := Apps_update [App_id (room_app_id room), App_team_id (team_id u),
                                   App_user_id (uid u), App_mode 5]
                        (\<lambda>a. a\<lparr>app_name := name req, app_description := description req\<rparr>) (apps s),
             chatrooms := Chatrooms_update [Room_id cid] (\<lambda>r. r\<lparr>room_max_round := max_round req\<rparr>) (chatrooms s),
             relations := reconcile cid (agent_entries (agent req)) (relations s)\<rparr>)"
proof -
  let ?E = "room_agent_ids cid (relations s)"
  let ?es = "agent_entries (agent req)"
  have ids: "those (map (\<lambda>a. item_get a ''agent_id'') (agent req)) = Some (map fst ?es)"
    using those_agent_ids[OF valid] agent_ids_of_entries[OF valid] by simp
  have E: "set (map rel_agent_id (get_agents_by_chatroom_id cid (relations s))) = ?E"
    by (simp add: room_agent_ids_def)
  have N: "set (map fst ?es) = fst ` set ?es" by simp
  show ?thesis
    unfolding update_chatroom_def Let_def
    using room name rounds nonempty valid
    by (simp only: ids E N option.case if_False if_True simp_thms
          delete_stale_agents insert_agent_filtered[OF valid]
          if_cancel reconcile_def length_0_conv)
qed

lemma example_request_entries:
  "agent_entries (agent example_request) = [(PInt 2, PInt 1), (PInt 3, PInt 1)]"
  "agent_ids_of (agent example_request) = [PInt 2, PInt 3]"
  "check_agent_items (agent example_request) = None"
  by (simp_all add: example_request_def agent_entries_def agent_ids_of_def agent_entry_def
      required_keys_def)

lemma example_update_eval:
  "update_chatroom 1 example_request example_user example_db =
     Some (response_success (Chatroom_id_data 1) None None,
           example_db\<lparr>relations := [\<lparr>rel_chatroom_id = 1, rel_agent_id = PInt 2, rel_active = PInt 1\<rparr>,
                                      \<lparr>rel_chatroom_id = 1, rel_agent_id = PInt 3, rel_active = PInt 1\<rparr>]\<rparr>)"
  by (simp add: update_chatroom_def example_request_def example_user_def example_db_def example_room_def
      search_chatrooms_id_def required_keys_def Apps_update_def Chatrooms_update_def
      get_agents_by_chatroom_id_def Relation_delete_def upsert_agent_def Relation_update_def Let_def)


lemma find_map_preserved:
  assumes "\<And>x. P (g x) = P x"
  shows "find P (map g xs) = map_option g (find P xs)"
  by (induction xs) (simp_all add: assms)

lemma search_chatrooms_id_after_update:
  assumes "\<And>r. room_id (f r) = room_id r" "\<And>r. room_user_id (f r) = room_user_id r"
    "\<And>r. room_status (f r) = room_status r"
  shows "search_chatrooms_id cid usr (Chatrooms_update conds f rows) =
         map_option (\<lambda>r. if list_all (room_holds r) conds then f r else r) (search_chatrooms_id cid usr rows)"
  unfolding search_chatrooms_id_def Chatrooms_update_def
  by (rule find_map_preserved) (simp add: assms)

lemma create_chatroom_accepted:
  assumes "truthy (name req)" and "max_round req \<noteq> PNone" and "max_round req \<noteq> PStr []"
    and "agent req \<noteq> []" and "check_agent_items (agent req) = None"
  shows "create_chatroom req u s =
     Some (response_success (Chatroom_id_data (next_id (map room_id (chatrooms s)))) None None,
           s\<lparr>apps := apps s @ [\<lparr>app_id = next_id (map app_id (apps s)), app_team_id = team_id u,
                                 app_user_id = uid u, app_name = name req,
                                 app_description = description req, app_mode = 5, app_status = 1\<rparr>],
             chatrooms := chatrooms s @ [\<lparr>room_id = next_id (map room_id (chatrooms s)),
                                 room_team_id = team_id u, room_user_id = uid u,
                                 room_app_id = next_id (map app_id (apps s)),
                                 room_max_round = max_round req, room_smart_selection = PInt 0,
                                 room_status = 1, room_active = 0\<rparr>],
             relations := upserts (next_id (map room_id (chatrooms s))) (agent_entries (agent req))
                            (relations s)\<rparr>)"
  using assms
  by (simp add: create_chatroom_def Apps_insert_def Chatrooms_insert_def Let_def insert_agent_upserts)

lemma upserts_written:
  assumes "map_of (rev es) i = Some v"
  shows "\<exists>r \<in> set (upserts cid es rows). rel_chatroom_id r = cid \<and> rel_agent_id r = i \<and> rel_active r = v"
proof -
  from assms have "i \<in> fst ` set es"
    by (metis map_of_eq_None_iff option.distinct(1) set_rev)
  then have "i \<in> room_agent_ids cid (upserts cid es rows)"
    by (simp add: upserts_ids)
  then obtain r where r: "r \<in> set (upserts cid es rows)" "rel_chatroom_id r = cid" "rel_agent_id r = i"
    unfolding room_agent_ids_iff by blast
  from upserts_row[OF r(1,2)] assms r(3) have "rel_active r = v" by simp
  with r show ?thesis by blast
qed

lemma reconcile_written:
  assumes "map_of (rev es) i = Some v"
  shows "\<exists>r \<in> set (reconcile cid es rows). rel_chatroom_id r = cid \<and> rel_agent_id r = i \<and> rel_active r = v"
proof -
  from assms have "i \<in> fst ` set es"
    by (metis map_of_eq_None_iff option.distinct(1) set_rev)
  then have "i \<in> room_agent_ids cid (reconcile cid es rows)"
    by (simp only: reconcile_ids)
  then obtain r where r: "r \<in> set (reconcile cid es rows)" "rel_chatroom_id r = cid" "rel_agent_id r = i"
    unfolding room_agent_ids_iff by blast
  from reconcile_row[OF r(1,2)] assms r(3) have "rel_active r = v" by simp
  with r show ?thesis by blast
qed

lemma toggle_auto_answer_switch_out_of_range:
  assumes "active \<noteq> PInt 0" and "active \<noteq> PInt 1"
  shows "\<exists>k. toggle_auto_answer_switch cid aid active u s = (response_error k, s)"
  using assms
  by (simp add: toggle_auto_answer_switch_def split: option.splits)

lemma example_out_of_range_create_eval:
  "create_chatroom example_out_of_range_request example_user example_db =
     Some (response_success (Chatroom_id_data 2) None None,
           example_db\<lparr>apps := apps example_db @
                         [\<lparr>app_id = 2, app_team_id = 1, app_user_id = 1, app_name = PStr ''room'',
                            app_description = PStr ''demo'', app_mode = 5, app_status = 1\<rparr>],
                      chatrooms := chatrooms example_db @
                         [\<lparr>room_id = 2, room_team_id = 1, room_user_id = 1, room_app_id = 2,
                            room_max_round = PInt 10, room_smart_selection = PInt 0, room_status = 1,
                            room_active = 0\<rparr>],
                      relations := relations example_db @
                         [\<lparr>rel_chatroom_id = 2, rel_agent_id = PInt 1, rel_active = PInt 5\<rparr>,
                          \<lparr>rel_chatroom_id = 2, rel_agent_id = PInt 2, rel_active = PStr ''yes''\<rparr>]\<rparr>)"
  by (simp add: create_chatroom_def example_out_of_range_request_def example_user_def example_db_def
      example_room_def required_keys_def Apps_insert_def Chatrooms_insert_def next_id_def
      upsert_agent_def Relation_update_def Let_def)

lemma example_out_of_range_toggle_eval:
  "toggle_auto_answer_switch 1 1 (PInt 5) example_user example_db =
     (response_error ''chatroom_agent_active_can_only_input'', example_db)"
  by (simp add: toggle_auto_answer_switch_def example_user_def example_db_def example_room_def
      search_chatrooms_id_def search_agent_id_def get_language_content_def)

lemma check_agent_items_Some:
  "check_agent_items items = Some err \<Longrightarrow>
     err = response_error (get_language_content ''chatroom_agent_item_must_be_a_dictionary'') \<or>
     err = response_error (get_language_content ''chatroom_agent_item_missing_keys'')"
  by (induction items rule: check_agent_items.induct) (auto simp: Let_def split: if_splits)

lemma validation_error_simps:
  "validation_error (response_error (get_language_content ''chatroom_name_is_required''))"
  "validation_error (response_error (get_language_content ''chatroom_max_round_is_required''))"
  "validation_error (response_error (get_language_content ''chatroom_agent_is_required''))"
  "validation_error (response_error (get_language_content ''chatroom_agent_item_must_be_a_dictionary''))"
  "validation_error (response_error (get_language_content ''chatroom_agent_item_missing_keys''))"
  "\<not> validation_error (response_error (get_language_content ''chatroom_does_not_exist''))"
  by (simp_all add: validation_keys_def get_language_content_def)

lemma malformed_list_rejected:
  assumes "items = [] \<or> list_ex malformed_entry items"
  shows "items = [] \<or> (\<exists>err. check_agent_items items = Some err \<and> validation_error err)"
proof (cases "items = []")
  case True
  then show ?thesis by simp
next
  case False
  with assms have "\<not> (\<forall>a \<in> set items. \<not> malformed_entry a)" by (simp add: list_ex_iff)
  then have "check_agent_items items \<noteq> None" using check_agent_items_None_iff[of items] by blast
  then obtain err where err: "check_agent_items items = Some err" by blast
  from check_agent_items_Some[OF err] have "validation_error err"
    using validation_error_simps(4,5) by blast
  with err show ?thesis by blast
qed

text \<open>
  A room made by create has an id other than 0, is found for its creator, and its linked
  application is the creator's: the preconditions under which delete is stated below.
\<close>

lemma next_id_greater:
  "x \<in> set ids \<Longrightarrow> x < next_id ids"
proof -
  assume "x \<in> set ids"
  then have "x \<le> Max (set (0 # ids))" by (intro Max_ge) simp_all
  also have "\<dots> = fold max ids 0" by (rule Max.set_eq_fold)
  finally show ?thesis by (simp add: next_id_def)
qed

lemma next_id_positive:
  "0 < next_id ids"
proof -
  have "0 \<le> Max (set (0 # ids))" by (intro Max_ge) simp_all
  also have "\<dots> = fold max ids 0" by (rule Max.set_eq_fold)
  finally show ?thesis by (simp add: next_id_def)
qed

lemma find_appended:
  "\<forall>x \<in> set xs. \<not> P x \<Longrightarrow> P y \<Longrightarrow> find P (xs @ [y]) = Some y"
  by (induction xs) simp_all

lemma create_chatroom_room_is_deletable:
  assumes "truthy (name req)" and "max_round req \<noteq> PNone" and "max_round req \<noteq> PStr []"
    and "agent req \<noteq> []" and "check_agent_items (agent req) = None"
  shows "\<exists>new_id s' room.
           create_chatroom req u s = Some (response_success (Chatroom_id_data new_id) None None, s')
         \<and> new_id \<noteq> 0
         \<and> search_chatrooms_id new_id (uid u) (chatrooms s') = Some room
         \<and> (\<forall>a \<in> set (apps s'). app_id a = room_app_id room \<longrightarrow> app_user_id a = uid u)"
proof -
  let ?n = "next_id (map room_id (chatrooms s))"
  let ?m = "next_id (map app_id (apps s))"
  let ?room = "\<lparr>room_id = ?n, room_team_id = team_id u, room_user_id = uid u, room_app_id = ?m,
                 room_max_round = max_round req, room_smart_selection = PInt 0,
                 room_status = 1, room_active = 0\<rparr>"
  have fresh_room: "\<forall>r \<in> set (chatrooms s). \<not> (room_id r = ?n \<and> room_user_id r = uid u \<and> room_status r = 1)"
    using next_id_greater[of _ "map room_id (chatrooms s)"] by fastforce
  have found: "search_chatrooms_id ?n (uid u) (chatrooms s @ [?room]) = Some ?room"
    unfolding search_chatrooms_id_def by (rule find_appended[OF fresh_room]) simp
  have fresh_app: "\<forall>a \<in> set (apps s). app_id a \<noteq> ?m"
    using next_id_greater[of _ "map app_id (apps s)"] by fastforce
  have nz: "?n \<noteq> 0" using next_id_positive[of "map room_id (chatrooms s)"] by simp
  show ?thesis
    unfolding create_chatroom_accepted[OF assms]
    using found fresh_app nz by simp
qed

section \<open>Room lifecycle\<close>

text \<open>
  C7. A delete call on an existing room of the caller (the room id is present, that is
  not 0, and the linked application is the caller's; create makes every room so, see
  \<open>create_chatroom_room_is_deletable\<close>) answers with the
  success envelope; the room's status becomes 3, the status of every application row
  linked to the room becomes 3, no membership row of the room is left, and the message
  table is the same as before.
\<close>

theorem delete_chatroom_effect:
  assumes "chatroom_id \<noteq> 0"
    and "search_chatrooms_id chatroom_id (uid u) (chatrooms s) = Some room"
    and "\<forall>a \<in> set (apps s). app_id a = room_app_id room \<longrightarrow> app_user_id a = uid u"
    and "delete_chatroom chatroom_id u s = (resp, s')"
  shows "resp = response_success (Msg_data (get_language_content ''chatroom_delete_success'')) None None
       \<and> room\<lparr>room_status := 3\<rparr> \<in> set (chatrooms s')
       \<and> (\<forall>r \<in> set (chatrooms s').
             room_id r = chatroom_id \<and> room_user_id r = uid u \<longrightarrow> room_status r = 3)
       \<and> filter (\<lambda>a. app_id a = room_app_id room) (apps s') =
           map (\<lambda>a. a\<lparr>app_status := 3\<rparr>) (filter (\<lambda>a. app_id a = room_app_id room) (apps s))
       \<and> (\<forall>a \<in> set (apps s'). app_id a = room_app_id room \<longrightarrow> app_status a = 3)
       \<and> get_agents_by_chatroom_id chatroom_id (relations s') = []
       \<and> messages s' = messages s"
  using assms search_chatrooms_id_Some[OF assms(2)]
  by (auto simp: delete_chatroom_def Chatrooms_update_def Apps_update_def Relation_delete_def
      get_agents_by_chatroom_id_def filter_map_if)

theorem delete_chatroom_effect_witness:
  "search_chatrooms_id 1 (uid example_user) (chatrooms example_db) = Some example_room
   \<and> example_room\<lparr>room_status := 3\<rparr> \<in> set (chatrooms (snd (delete_chatroom 1 example_user example_db)))
   \<and> map app_status (filter (\<lambda>a. app_id a = 1) (apps (snd (delete_chatroom 1 example_user example_db)))) = [3]
   \<and> get_agents_by_chatroom_id 1 (relations (snd (delete_chatroom 1 example_user example_db))) = []
   \<and> messages (snd (delete_chatroom 1 example_user example_db)) = messages example_db"
proof -
  have h1: "(1::int) \<noteq> 0" by simp
  note h2 = example_room_found
  have h3: "\<forall>a \<in> set (apps example_db). app_id a = room_app_id example_room \<longrightarrow> app_user_id a = uid example_user"
    by (simp add: example_db_def example_user_def example_room_def)
  have h4: "delete_chatroom 1 example_user example_db =
      (fst (delete_chatroom 1 example_user example_db), snd (delete_chatroom 1 example_user example_db))"
    by simp
  have a: "room_app_id example_room = 1"
    by (simp add: example_room_def)
  have b: "map app_status (map (\<lambda>a. a\<lparr>app_status := 3\<rparr>) (filter (\<lambda>a. app_id a = 1) (apps example_db))) = [3]"
    by (simp add: example_db_def)
  from delete_chatroom_effect[OF h1 h2 h3 h4] h2 a b show ?thesis by simp
qed

text \<open>
  C8. When the room does not exist for the caller, the details call answers with a success
  envelope that carries the does-not-exist message and the code 1, and leaves the store
  alone; update, delete, the two settings calls and history answer the same condition with
  an error envelope (delete and the settings calls with the id-is-required error when the
  room id is 0, with the does-not-exist error otherwise).
\<close>

theorem details_missing_room_is_success_envelope:
  assumes "search_chatrooms_id cid (uid u) (chatrooms s) = None"
  shows "show_chatroom_details cid u s =
           (response_success No_data (Some (get_language_content ''chatroom_does_not_exist'')) (Some 1), s)
       \<and> update_chatroom cid req u s =
           Some (response_error (get_language_content ''chatroom_does_not_exist''), s)
       \<and> show_chatroom_details_chatroom_message cid page page_size u s =
           (response_error (get_language_content ''chatroom_does_not_exist''), s)
       \<and> delete_chatroom cid u s =
           (response_error (get_language_content
              (if cid = 0 then ''chatroom_id_is_required'' else ''chatroom_does_not_exist'')), s)
       \<and> toggle_smart_selection_switch cid v u s =
           (response_error (get_language_content
              (if cid = 0 then ''chatroom_id_is_required'' else ''chatroom_does_not_exist'')), s)
       \<and> toggle_auto_answer_switch cid aid act u s =
           (response_error (get_language_content
              (if cid = 0 then ''chatroom_id_is_required'' else ''chatroom_does_not_exist'')), s)"
  using assms
  by (simp add: show_chatroom_details_def update_chatroom_def
      show_chatroom_details_chatroom_message_def delete_chatroom_def
      toggle_smart_selection_switch_def toggle_auto_answer_switch_def)

theorem details_missing_room_is_success_envelope_witness:
  "search_chatrooms_id 7 (uid example_user) (chatrooms example_db) = None
   \<and> show_chatroom_details 7 example_user example_db =
       (response_success No_data (Some ''chatroom_does_not_exist'') (Some 1), example_db)
   \<and> delete_chatroom 7 example_user example_db = (response_error ''chatroom_does_not_exist'', example_db)"
proof -
  have h: "search_chatrooms_id 7 (uid example_user) (chatrooms example_db) = None"
    by (simp add: search_chatrooms_id_def example_db_def example_user_def example_room_def)
  from details_missing_room_is_success_envelope[OF h, of undefined 0 0 PNone 0 PNone] h
  show ?thesis by (simp add: get_language_content_def)
qed

section \<open>Message history\<close>

text \<open>
  C5. A history call on an existing room of the caller, whatever the page and the page
  size, answers with the page read before the writes, sets the active flag of the room to
  0 and sets \<open>is_read\<close> to 1 on every message row of the room.
\<close>

theorem history_marks_room_read:
  assumes "search_chatrooms_id cid (uid u) (chatrooms s) = Some room"
    and "show_chatroom_details_chatroom_message cid page page_size u s = (resp, s')"
  shows "resp = response_success
                  (History_data (history_chatroom_messages cid page page_size (messages s))) None None
       \<and> room\<lparr>room_active := 0\<rparr> \<in> set (chatrooms s')
       \<and> filter (\<lambda>r. room_id r = cid) (chatrooms s') =
           map (\<lambda>r. r\<lparr>room_active := 0\<rparr>) (filter (\<lambda>r. room_id r = cid) (chatrooms s))
       \<and> (\<forall>r \<in> set (chatrooms s'). room_id r = cid \<longrightarrow> room_active r = 0)
       \<and> filter (\<lambda>m. msg_chatroom_id m = cid) (messages s') =
           map (\<lambda>m. m\<lparr>msg_is_read := 1\<rparr>) (filter (\<lambda>m. msg_chatroom_id m = cid) (messages s))
       \<and> (\<forall>m \<in> set (messages s'). msg_chatroom_id m = cid \<longrightarrow> msg_is_read m = 1)"
  using assms search_chatrooms_id_Some[OF assms(1)]
  by (auto simp: show_chatroom_details_chatroom_message_def Chatrooms_update_def Messages_update_def
      filter_map_if)

theorem history_marks_room_read_witness:
  "search_chatrooms_id 1 (uid example_user) (chatrooms example_db) = Some example_room
   \<and> fst (show_chatroom_details_chatroom_message 1 99 10 example_user example_db) =
       response_success (History_data []) None None
   \<and> map room_active (chatrooms (snd (show_chatroom_details_chatroom_message 1 99 10 example_user example_db))) = [0]
   \<and> map msg_is_read (messages (snd (show_chatroom_details_chatroom_message 1 99 10 example_user example_db))) = [1, 1]"
proof -
  note h1 = example_room_found
  have h2: "show_chatroom_details_chatroom_message 1 99 10 example_user example_db =
      (fst (show_chatroom_details_chatroom_message 1 99 10 example_user example_db),
       snd (show_chatroom_details_chatroom_message 1 99 10 example_user example_db))"
    by simp
  have e: "history_chatroom_messages 1 99 10 (messages example_db) = []"
    by (simp add: history_chatroom_messages_def example_db_def)
  have m: "filter (\<lambda>m. msg_chatroom_id m = 1) (messages example_db) = messages example_db"
    by (simp add: example_db_def)
  have r: "filter (\<lambda>r. room_id r = 1) (chatrooms example_db) = chatrooms example_db"
    by (simp add: example_db_def example_room_def)
  from history_marks_room_read[OF h1 h2] h1 e m r show ?thesis
    by (simp add: show_chatroom_details_chatroom_message_def Chatrooms_update_def Messages_update_def
        example_db_def example_room_def example_user_def search_chatrooms_id_def)
qed

section \<open>Agent settings\<close>

text \<open>
  C3. A call that deactivates an agent (active = 0), with the room id and the agent id
  present (not 0), on an existing room of the caller, an existing agent and an existing
  membership of the two: when the room has exactly one active membership the call answers
  with the at-least-one-agent error and the store, so the membership row, is unchanged;
  when the room has two or more active memberships the call succeeds and the active flag
  of that membership is 0 afterwards, every other row being as before.
\<close>

theorem deactivate_last_active_guard:
  assumes "cid \<noteq> 0" and "aid \<noteq> 0"
    and "search_chatrooms_id cid (uid u) (chatrooms s) = Some room"
    and "search_agent_id aid (agents s) = Some ag"
    and "search_chatroom_agent_relation_id cid aid (relations s) = Some rel"
  shows "(length (get_active_agents_by_chatroom_id cid (relations s)) = 1 \<longrightarrow>
            toggle_auto_answer_switch cid aid (PInt 0) u s =
              (response_error (get_language_content ''chatroom_agent_number_less_than_one''), s))
       \<and> (2 \<le> length (get_active_agents_by_chatroom_id cid (relations s)) \<longrightarrow>
            toggle_auto_answer_switch cid aid (PInt 0) u s =
              (response_success No_data None None,
               s\<lparr>relations :=
                   map (\<lambda>r. if rel_chatroom_id r = cid \<and> rel_agent_id r = PInt aid
                             then r\<lparr>rel_active := PInt 0\<rparr> else r) (relations s)\<rparr>)
            \<and> rel\<lparr>rel_active := PInt 0\<rparr> \<in> set (relations (snd (toggle_auto_answer_switch cid aid (PInt 0) u s)))
            \<and> (\<forall>r \<in> set (relations (snd (toggle_auto_answer_switch cid aid (PInt 0) u s))).
                  rel_chatroom_id r = cid \<and> rel_agent_id r = PInt aid \<longrightarrow> rel_active r = PInt 0))"
  using assms search_chatroom_agent_relation_id_Some[OF assms(5)]
  by (auto simp: toggle_auto_answer_switch_def Relation_update_def intro!: image_eqI[where x=rel])

theorem deactivate_last_active_guard_witness:
  "toggle_auto_answer_switch 1 1 (PInt 0) example_user example_db_one_active =
     (response_error ''chatroom_agent_number_less_than_one'', example_db_one_active)
   \<and> toggle_auto_answer_switch 1 2 (PInt 0) example_user example_db =
     (response_success No_data None None,
      example_db\<lparr>relations := [\<lparr>rel_chatroom_id = 1, rel_agent_id = PInt 1, rel_active = PInt 1\<rparr>,
                                 \<lparr>rel_chatroom_id = 1, rel_agent_id = PInt 2, rel_active = PInt 0\<rparr>]\<rparr>)"
proof -
  have n: "(1::int) \<noteq> 0" "(2::int) \<noteq> 0" by simp_all
  have m: "map (\<lambda>r. if rel_chatroom_id r = 1 \<and> rel_agent_id r = PInt 2
                     then r\<lparr>rel_active := PInt 0\<rparr> else r) (relations example_db) =
           [\<lparr>rel_chatroom_id = 1, rel_agent_id = PInt 1, rel_active = PInt 1\<rparr>,
            \<lparr>rel_chatroom_id = 1, rel_agent_id = PInt 2, rel_active = PInt 0\<rparr>]"
    by (simp add: example_db_def)
  from deactivate_last_active_guard[OF n(1) n(1) example_one_active_facts(1,2,4)]
       deactivate_last_active_guard[OF n(1) n(2) example_room_found example_facts(1,2)]
       example_one_active_facts(6) example_facts(3) m
  show ?thesis by (simp add: get_language_content_def)
qed

text \<open>
  C10. The guard counts the active memberships of the room and never looks at the target:
  under the same preconditions, a deactivating call on a room with at most one active
  membership is rejected with the at-least-one-agent error and changes nothing, also
  when the target membership is inactive already (as agent 2 is in the example after the
  theorem).
\<close>

theorem deactivate_rejected_whatever_target_state:
  assumes "cid \<noteq> 0" and "aid \<noteq> 0"
    and "search_chatrooms_id cid (uid u) (chatrooms s) = Some room"
    and "search_agent_id aid (agents s) = Some ag"
    and "search_chatroom_agent_relation_id cid aid (relations s) = Some rel"
    and "length (get_active_agents_by_chatroom_id cid (relations s)) \<le> 1"
  shows "toggle_auto_answer_switch cid aid (PInt 0) u s =
           (response_error (get_language_content ''chatroom_agent_number_less_than_one''), s)"
  using assms by (simp add: toggle_auto_answer_switch_def)

theorem deactivate_rejected_whatever_target_state_witness:
  "rel_active (the (search_chatroom_agent_relation_id 1 2 (relations example_db_one_active))) = PInt 0
   \<and> toggle_auto_answer_switch 1 2 (PInt 0) example_user example_db_one_active =
       (response_error ''chatroom_agent_number_less_than_one'', example_db_one_active)"
proof -
  have n: "(1::int) \<noteq> 0" "(2::int) \<noteq> 0" by simp_all
  have l: "length (get_active_agents_by_chatroom_id 1 (relations example_db_one_active)) \<le> 1"
    by (simp add: example_one_active_facts(6))
  from deactivate_rejected_whatever_target_state[OF n(1) n(2) example_one_active_facts(1,3,5) l]
  show ?thesis by (simp add: get_language_content_def example_one_active_facts(5))
qed

section \<open>Membership reconciliation\<close>

text \<open>
  C1. An update call on an existing room of the caller with a name, a round limit and a
  well-formed, non-empty agent list succeeds, and afterwards the agent ids attached to the
  room are exactly the agent ids of the incoming list: no row is left for an id that was
  attached and is not in the list, every id of the list has a row, every row of the room
  carries the active value of the last entry of its agent, and the rows of other rooms are
  as before.
\<close>

theorem update_reconciles_membership:
  assumes "search_chatrooms_id cid (uid u) (chatrooms s) = Some room"
    and "truthy (name req)"
    and "max_round req \<noteq> PNone" and "max_round req \<noteq> PStr []"
    and "agent req \<noteq> []"
    and "check_agent_items (agent req) = None"
  shows "\<exists>s'. update_chatroom cid req u s = Some (response_success (Chatroom_id_data cid) None None, s')
      \<and> room_agent_ids cid (relations s') = set (agent_ids_of (agent req))
      \<and> (\<forall>i \<in> room_agent_ids cid (relations s) - set (agent_ids_of (agent req)).
            \<not> list_ex (\<lambda>r. rel_chatroom_id r = cid \<and> rel_agent_id r = i) (relations s'))
      \<and> (\<forall>i \<in> set (agent_ids_of (agent req)).
            list_ex (\<lambda>r. rel_chatroom_id r = cid \<and> rel_agent_id r = i) (relations s'))
      \<and> (\<forall>r \<in> set (get_agents_by_chatroom_id cid (relations s')).
            last_active (agent req) (rel_agent_id r) = Some (rel_active r))
      \<and> filter (\<lambda>r. rel_chatroom_id r \<noteq> cid) (relations s') =
          filter (\<lambda>r. rel_chatroom_id r \<noteq> cid) (relations s)"
proof -
  let ?es = "agent_entries (agent req)"
  let ?R = "reconcile cid ?es (relations s)"
  have N: "set (agent_ids_of (agent req)) = fst ` set ?es"
    by (simp add: agent_ids_of_entries[OF assms(6)])
  have ids: "room_agent_ids cid ?R = set (agent_ids_of (agent req))"
    by (simp only: N reconcile_ids)
  have gone: "\<forall>i \<in> room_agent_ids cid (relations s) - set (agent_ids_of (agent req)).
      \<not> list_ex (\<lambda>r. rel_chatroom_id r = cid \<and> rel_agent_id r = i) ?R"
    unfolding ids[symmetric] list_ex_iff Ball_def Diff_iff room_agent_ids_iff by blast
  have there: "\<forall>i \<in> set (agent_ids_of (agent req)).
      list_ex (\<lambda>r. rel_chatroom_id r = cid \<and> rel_agent_id r = i) ?R"
    unfolding ids[symmetric] list_ex_iff Ball_def room_agent_ids_iff by blast
  have vals: "\<forall>r \<in> set (get_agents_by_chatroom_id cid ?R).
      last_active (agent req) (rel_agent_id r) = Some (rel_active r)"
    by (auto simp: get_agents_by_chatroom_id_def last_active_def intro: reconcile_row)
  show ?thesis
    unfolding update_chatroom_accepted[OF assms]
    using ids gone there vals reconcile_other_rooms[of cid ?es "relations s"]
    by simp
qed

theorem update_reconciles_membership_witness:
  "update_chatroom 1 example_request example_user example_db =
     Some (response_success (Chatroom_id_data 1) None None,
           example_db\<lparr>relations := [\<lparr>rel_chatroom_id = 1, rel_agent_id = PInt 2, rel_active = PInt 1\<rparr>,
                                      \<lparr>rel_chatroom_id = 1, rel_agent_id = PInt 3, rel_active = PInt 1\<rparr>]\<rparr>)
   \<and> room_agent_ids 1 (relations example_db) = {PInt 1, PInt 2}
   \<and> room_agent_ids 1 (relations (snd (the (update_chatroom 1 example_request example_user example_db)))) =
       {PInt 2, PInt 3}"
proof -
  have h: "truthy (name example_request)" "max_round example_request \<noteq> PNone"
    "max_round example_request \<noteq> PStr []" "agent example_request \<noteq> []"
    by (simp_all add: example_request_def)
  have b: "room_agent_ids 1 (relations example_db) = {PInt 1, PInt 2}"
    by (auto simp add: room_agent_ids_def get_agents_by_chatroom_id_def example_db_def)
  from update_reconciles_membership[OF example_room_found h example_request_entries(3)]
  obtain s' where s': "update_chatroom 1 example_request example_user example_db =
       Some (response_success (Chatroom_id_data 1) None None, s')"
     "room_agent_ids 1 (relations s') = set (agent_ids_of (agent example_request))"
    by blast
  from s' have "room_agent_ids 1 (relations (snd (the (update_chatroom 1 example_request example_user example_db)))) =
       {PInt 2, PInt 3}"
    by (auto simp add: example_request_entries(2))
  with example_update_eval b show ?thesis by simp
qed

text \<open>
  C4. Update is idempotent on membership: after an update call that passes the checks, a
  second update call on the same room with the same agent list (and any valid name and
  round limit) succeeds and leaves the membership table exactly as the first call left
  it; repeating the very same request leaves the whole store as it is.
\<close>

theorem update_idempotent_on_membership:
  assumes "search_chatrooms_id cid (uid u) (chatrooms s) = Some room"
    and "truthy (name req)" and "max_round req \<noteq> PNone" and "max_round req \<noteq> PStr []"
    and "agent req \<noteq> []" and "check_agent_items (agent req) = None"
    and "truthy (name req')" and "max_round req' \<noteq> PNone" and "max_round req' \<noteq> PStr []"
    and "agent req' = agent req"
  shows "\<exists>s1 s2. update_chatroom cid req u s = Some (response_success (Chatroom_id_data cid) None None, s1)
          \<and> update_chatroom cid req' u s1 = Some (response_success (Chatroom_id_data cid) None None, s2)
          \<and> relations s2 = relations s1
          \<and> update_chatroom cid req u s1 = Some (response_success (Chatroom_id_data cid) None None, s1)"
proof -
  let ?upd = "\<lambda>q r. r\<lparr>room_max_round := max_round q\<rparr>"
  let ?s1 = "s\<lparr>apps := Apps_update [App_id (room_app_id room), App_team_id (team_id u),
                                   App_user_id (uid u), App_mode 5]
                        (\<lambda>a. a\<lparr>app_name := name req, app_description := description req\<rparr>) (apps s),
             chatrooms := Chatrooms_update [Room_id cid] (?upd req) (chatrooms s),
             relations := reconcile cid (agent_entries (agent req)) (relations s)\<rparr>"
  have first: "update_chatroom cid req u s = Some (response_success (Chatroom_id_data cid) None None, ?s1)"
    by (rule update_chatroom_accepted[OF assms(1-6)])
  have "search_chatrooms_id cid (uid u) (chatrooms ?s1) =
          Some (if list_all (room_holds room) [Room_id cid] then ?upd req room else room)"
    by (simp add: search_chatrooms_id_after_update assms(1))
  then obtain room1 where found: "search_chatrooms_id cid (uid u) (chatrooms ?s1) = Some room1"
    and app1: "room_app_id room1 = room_app_id room"
    by (cases "list_all (room_holds room) [Room_id cid]") simp_all
  have valid': "agent req' \<noteq> []" "check_agent_items (agent req') = None"
    using assms(5,6,10) by simp_all
  have second: "update_chatroom cid req' u ?s1 =
      Some (response_success (Chatroom_id_data cid) None None,
        ?s1\<lparr>apps := Apps_update [App_id (room_app_id room1), App_team_id (team_id u),
                                   App_user_id (uid u), App_mode 5]
                        (\<lambda>a. a\<lparr>app_name := name req', app_description := description req'\<rparr>) (apps ?s1),
             chatrooms := Chatrooms_update [Room_id cid] (?upd req') (chatrooms ?s1),
             relations := reconcile cid (agent_entries (agent req')) (relations ?s1)\<rparr>)"
    by (rule update_chatroom_accepted[OF found assms(7-9) valid'])
  have rel: "reconcile cid (agent_entries (agent req')) (relations ?s1) = relations ?s1"
    by (simp add: assms(10) reconcile_idem)
  have apps_idem: "Apps_update [App_id (room_app_id room1), App_team_id (team_id u), App_user_id (uid u), App_mode 5]
                        (\<lambda>a. a\<lparr>app_name := name req, app_description := description req\<rparr>) (apps ?s1) = apps ?s1"
    by (simp add: Apps_update_def app1)
  have rooms_idem: "Chatrooms_update [Room_id cid] (?upd req) (chatrooms ?s1) = chatrooms ?s1"
    by (simp add: Chatrooms_update_def)
  have again: "update_chatroom cid req u ?s1 = Some (response_success (Chatroom_id_data cid) None None, ?s1)"
    using update_chatroom_accepted[OF found assms(2-6)] apps_idem rooms_idem reconcile_idem[of cid "agent_entries (agent req)" "relations s"]
    by simp
  from first second rel again show ?thesis by simp
qed

theorem update_idempotent_on_membership_witness:
  "update_chatroom 1 example_request example_user example_db =
     Some (response_success (Chatroom_id_data 1) None None,
           example_db\<lparr>relations := [\<lparr>rel_chatroom_id = 1, rel_agent_id = PInt 2, rel_active = PInt 1\<rparr>,
                                      \<lparr>rel_chatroom_id = 1, rel_agent_id = PInt 3, rel_active = PInt 1\<rparr>]\<rparr>)
   \<and> update_chatroom 1 example_request example_user
       (example_db\<lparr>relations := [\<lparr>rel_chatroom_id = 1, rel_agent_id = PInt 2, rel_active = PInt 1\<rparr>,
                                  \<lparr>rel_chatroom_id = 1, rel_agent_id = PInt 3, rel_active = PInt 1\<rparr>]\<rparr>) =
     Some (response_success (Chatroom_id_data 1) None None,
           example_db\<lparr>relations := [\<lparr>rel_chatroom_id = 1, rel_agent_id = PInt 2, rel_active = PInt 1\<rparr>,
                                      \<lparr>rel_chatroom_id = 1, rel_agent_id = PInt 3, rel_active = PInt 1\<rparr>]\<rparr>)"
proof -
  have h: "truthy (name example_request)" "max_round example_request \<noteq> PNone"
    "max_round example_request \<noteq> PStr []" "agent example_request \<noteq> []"
    by (simp_all add: example_request_def)
  from update_idempotent_on_membership[OF example_room_found h example_request_entries(3) h(1-3) refl]
  obtain s1 where "update_chatroom 1 example_request example_user example_db =
        Some (response_success (Chatroom_id_data 1) None None, s1)"
    and "update_chatroom 1 example_request example_user s1 =
        Some (response_success (Chatroom_id_data 1) None None, s1)"
    by blast
  with example_update_eval show ?thesis by simp
qed

section \<open>Validation of the agent list\<close>

text \<open>
  C9. The validation of create and update looks only at the shape of the entries: when
  every entry is a dict with the keys \<open>agent_id\<close> and \<open>active\<close>, whatever their values,
  the list passes, create and update (on an existing room) succeed, and for every agent of
  the list the membership table then holds a row of the room with the active value of the
  agent's last entry as it was sent, be it 5 or a string. The settings call, in contrast,
  answers every active value other than 0 and 1 with an error envelope and writes nothing.
\<close>

theorem active_value_not_range_checked:
  assumes "truthy (name req)" and "max_round req \<noteq> PNone" and "max_round req \<noteq> PStr []"
    and "agent req \<noteq> []"
    and "\<forall>a \<in> set (agent req). \<exists>d. a = Dict d \<and> d ''agent_id'' \<noteq> None \<and> d ''active'' \<noteq> None"
  shows "check_agent_items (agent req) = None
       \<and> (\<exists>new_id s'. create_chatroom req u s = Some (response_success (Chatroom_id_data new_id) None None, s')
             \<and> (\<forall>i v. last_active (agent req) i = Some v \<longrightarrow>
                   (\<exists>r \<in> set (relations s').
                      rel_chatroom_id r = new_id \<and> rel_agent_id r = i \<and> rel_active r = v)))
       \<and> (search_chatrooms_id cid (uid u) (chatrooms s) \<noteq> None \<longrightarrow>
            (\<exists>s'. update_chatroom cid req u s = Some (response_success (Chatroom_id_data cid) None None, s')
             \<and> (\<forall>i v. last_active (agent req) i = Some v \<longrightarrow>
                   (\<exists>r \<in> set (relations s').
                      rel_chatroom_id r = cid \<and> rel_agent_id r = i \<and> rel_active r = v))))
       \<and> (\<forall>active. active \<noteq> PInt 0 \<and> active \<noteq> PInt 1 \<longrightarrow>
            (\<exists>k. toggle_auto_answer_switch cid aid active u s = (response_error k, s)))"
proof -
  have valid: "check_agent_items (agent req) = None"
    unfolding check_agent_items_None_iff
  proof
    fix a assume "a \<in> set (agent req)"
    with assms(5) obtain d where "a = Dict d" "d ''agent_id'' \<noteq> None" "d ''active'' \<noteq> None" by blast
    then show "\<not> malformed_entry a" by simp
  qed
  have create: "\<exists>new_id s'. create_chatroom req u s = Some (response_success (Chatroom_id_data new_id) None None, s')
             \<and> (\<forall>i v. last_active (agent req) i = Some v \<longrightarrow>
                   (\<exists>r \<in> set (relations s').
                      rel_chatroom_id r = new_id \<and> rel_agent_id r = i \<and> rel_active r = v))"
    unfolding create_chatroom_accepted[OF assms(1-4) valid] last_active_def
    using upserts_written by simp
  have update: "\<exists>s'. update_chatroom cid req u s = Some (response_success (Chatroom_id_data cid) None None, s')
             \<and> (\<forall>i v. last_active (agent req) i = Some v \<longrightarrow>
                   (\<exists>r \<in> set (relations s').
                      rel_chatroom_id r = cid \<and> rel_agent_id r = i \<and> rel_active r = v))"
    if "search_chatrooms_id cid (uid u) (chatrooms s) \<noteq> None"
  proof -
    from that obtain room where "search_chatrooms_id cid (uid u) (chatrooms s) = Some room" by blast
    from update_chatroom_accepted[OF this assms(1-4) valid] show ?thesis
      unfolding last_active_def using reconcile_written by simp
  qed
  from valid create update toggle_auto_answer_switch_out_of_range show ?thesis by blast
qed

theorem active_value_not_range_checked_witness:
  "check_agent_items (agent example_out_of_range_request) = None
   \<and> create_chatroom example_out_of_range_request example_user example_db =
     Some (response_success (Chatroom_id_data 2) None None,
           example_db\<lparr>apps := apps example_db @
                         [\<lparr>app_id = 2, app_team_id = 1, app_user_id = 1, app_name = PStr ''room'',
                            app_description = PStr ''demo'', app_mode = 5, app_status = 1\<rparr>],
                      chatrooms := chatrooms example_db @
                         [\<lparr>room_id = 2, room_team_id = 1, room_user_id = 1, room_app_id = 2,
                            room_max_round = PInt 10, room_smart_selection = PInt 0, room_status = 1,
                            room_active = 0\<rparr>],
                      relations := relations example_db @
                         [\<lparr>rel_chatroom_id = 2, rel_agent_id = PInt 1, rel_active = PInt 5\<rparr>,
                          \<lparr>rel_chatroom_id = 2, rel_agent_id = PInt 2, rel_active = PStr ''yes''\<rparr>]\<rparr>)
   \<and> toggle_auto_answer_switch 1 1 (PInt 5) example_user example_db =
     (response_error ''chatroom_agent_active_can_only_input'', example_db)"
proof -
  have h: "truthy (name example_out_of_range_request)" "max_round example_out_of_range_request \<noteq> PNone"
    "max_round example_out_of_range_request \<noteq> PStr []" "agent example_out_of_range_request \<noteq> []"
    "\<forall>a \<in> set (agent example_out_of_range_request).
        \<exists>d. a = Dict d \<and> d ''agent_id'' \<noteq> None \<and> d ''active'' \<noteq> None"
    by (simp_all add: example_out_of_range_request_def)
  from active_value_not_range_checked[OF h, of example_user example_db 1 1]
  have "check_agent_items (agent example_out_of_range_request) = None" by blast
  with example_out_of_range_create_eval example_out_of_range_toggle_eval show ?thesis by simp
qed

text \<open>
  C6, in the form that holds. A create or update call whose agent list is empty, or has an element
  that is not a dict or lacks the key \<open>agent_id\<close> or \<open>active\<close>, writes nothing and
  answers with an error envelope: create with a validation error, update with a
  validation error when the room exists for the caller and with the does-not-exist error
  otherwise, since update looks the room up before it validates the body.
\<close>

theorem malformed_agent_list_no_write:
  assumes "agent req = [] \<or> list_ex malformed_entry (agent req)"
  shows "(\<exists>resp. create_chatroom req u s = Some (resp, s) \<and> validation_error resp)
       \<and> (\<exists>resp. update_chatroom cid req u s = Some (resp, s)
             \<and> (if search_chatrooms_id cid (uid u) (chatrooms s) = None
                 then resp = response_error (get_language_content ''chatroom_does_not_exist'')
                 else validation_error resp))"
proof -
  note bad = malformed_list_rejected[OF assms]
  have create: "\<exists>resp. create_chatroom req u s = Some (resp, s) \<and> validation_error resp"
    using bad
    by (auto simp: create_chatroom_def Let_def validation_error_simps simp del: validation_error.simps)
  have update: "\<exists>resp. update_chatroom cid req u s = Some (resp, s)
             \<and> (if search_chatrooms_id cid (uid u) (chatrooms s) = None
                 then resp = response_error (get_language_content ''chatroom_does_not_exist'')
                 else validation_error resp)"
  proof (cases "search_chatrooms_id cid (uid u) (chatrooms s)")
    case None
    then show ?thesis by (simp add: update_chatroom_def)
  next
    case (Some room)
    then show ?thesis
      using bad
      by (auto simp: update_chatroom_def Let_def validation_error_simps simp del: validation_error.simps)
  qed
  from create update show ?thesis by blast
qed

theorem malformed_agent_list_no_write_witness:
  "list_ex malformed_entry (agent example_missing_key_request)
   \<and> create_chatroom example_missing_key_request example_user example_db =
       Some (response_error ''chatroom_agent_item_missing_keys'', example_db)
   \<and> update_chatroom 1 example_missing_key_request example_user example_db =
       Some (response_error ''chatroom_agent_item_missing_keys'', example_db)
   \<and> validation_error (response_error ''chatroom_agent_item_missing_keys'')"
proof -
  have h: "list_ex malformed_entry (agent example_missing_key_request)"
    by (simp add: example_missing_key_request_def)
  then have h': "agent example_missing_key_request = [] \<or> list_ex malformed_entry (agent example_missing_key_request)"
    by simp
  have c: "create_chatroom example_missing_key_request example_user example_db =
       Some (response_error ''chatroom_agent_item_missing_keys'', example_db)"
    by (simp add: create_chatroom_def example_missing_key_request_def required_keys_def
        get_language_content_def)
  have u: "update_chatroom 1 example_missing_key_request example_user example_db =
       Some (response_error ''chatroom_agent_item_missing_keys'', example_db)"
    using example_room_found
    by (simp add: update_chatroom_def example_missing_key_request_def required_keys_def
        get_language_content_def)
  from malformed_agent_list_no_write[OF h', of example_user example_db 1] h c u
  show ?thesis by simp
qed

text \<open>
  C6 with a validation error promised for every such call does not hold: an update call with an empty agent list on a room that does not
  exist answers with the does-not-exist error, which is a not-found error and not a
  validation error.
\<close>

theorem malformed_agent_list_counterexample:
  "agent example_empty_request = []
   \<and> update_chatroom 7 example_empty_request example_user example_db =
       Some (response_error ''chatroom_does_not_exist'', example_db)
   \<and> \<not> validation_error (response_error ''chatroom_does_not_exist'')"
  by (simp add: update_chatroom_def example_empty_request_def example_user_def example_db_def
      example_room_def search_chatrooms_id_def get_language_content_def validation_keys_def)

section \<open>The last active agent\<close>

text \<open>
  C2. The settings call guards the last active agent, update does not: on the example
  store, where room 1 has active memberships, an update call whose list names agent 1 as
  inactive succeeds and leaves room 1 with one membership and no active one.
\<close>

theorem update_can_leave_no_active_agent:
  "get_active_agents_by_chatroom_id 1 (relations example_db) \<noteq> []
   \<and> update_chatroom 1 example_deactivating_request example_user example_db =
       Some (response_success (Chatroom_id_data 1) None None,
             example_db\<lparr>relations := [\<lparr>rel_chatroom_id = 1, rel_agent_id = PInt 1, rel_active = PInt 0\<rparr>]\<rparr>)
   \<and> get_agents_by_chatroom_id 1
        [\<lparr>rel_chatroom_id = 1, rel_agent_id = PInt 1, rel_active = PInt 0\<rparr>] \<noteq> []
   \<and> get_active_agents_by_chatroom_id 1
        [\<lparr>rel_chatroom_id = 1, rel_agent_id = PInt 1, rel_active = PInt 0\<rparr>] = []"
  by (simp add: update_chatroom_def example_deactivating_request_def example_user_def example_db_def
      example_room_def search_chatrooms_id_def required_keys_def Apps_update_def Chatrooms_update_def
      get_agents_by_chatroom_id_def get_active_agents_by_chatroom_id_def Relation_delete_def
      upsert_agent_def Relation_update_def Let_def)

end
